theory Spec2Isabelle
  imports Main "HOL-Library.Multiset"
begin

section \<open>Strings as the program sees them\<close>

text \<open>
  Text is a list of characters with codes 0..255. The whitespace class is the part of the
  regular-expression class \<open>\s\<close> (and of what \<open>trim\<close> strips) that lies in this range:
  tab, line feed, vertical tab, form feed, carriage return, space and no-break space.
\<close>

definition isSpace :: "char \<Rightarrow> bool" where
  "isSpace c = (c \<in> {CHR 0x09, CHR 0x0A, CHR 0x0B, CHR 0x0C, CHR 0x0D, CHR 0x20, CHR 0xA0})"

text \<open>
  \<open>s.split(/\s+/)\<close>: the pieces between maximal runs of whitespace. A run at the start or
  at the end of the text leaves an empty piece there; the empty text gives one empty piece.
\<close>

function splitFrom :: "string \<Rightarrow> string \<Rightarrow> string list" where
  "splitFrom cur [] = [cur]"
| "splitFrom cur (c # cs) =
     (if isSpace c then cur # splitFrom [] (dropWhile isSpace cs)
      else splitFrom (cur @ [c]) cs)"
  by pat_completeness auto
termination
  by (relation "measure (\<lambda>(cur, s). length s)")
     (auto simp: length_dropWhile_le less_Suc_eq_le)

definition splitWs :: "string \<Rightarrow> string list" where
  "splitWs s = splitFrom [] s"

text \<open>\<open>s.trim()\<close>: whitespace removed at both ends.\<close>

definition trim :: "string \<Rightarrow> string" where
  "trim s = rev (dropWhile isSpace (rev (dropWhile isSpace s)))"

text \<open>
  Decimal rendering of a number inside a template literal. \<open>digitChar\<close> is applied to
  digits only: to \<open>n\<close> below 10 and to \<open>n mod 10\<close>.
\<close>

definition digitChar :: "nat \<Rightarrow> char" where
  "digitChar d = ''0123456789'' ! d"

fun showNat :: "nat \<Rightarrow> string" where
  "showNat n = (if n < 10 then [digitChar n] else showNat (n div 10) @ [digitChar (n mod 10)])"

definition showInt :: "int \<Rightarrow> string" where
  "showInt i = (if i < 0 then CHR ''-'' # showNat (nat (- i)) else showNat (nat i))"

definition nl :: char where
  "nl = CHR 0x0A"

text \<open>\<open>xs.join(', ')\<close>\<close>

fun joinComma :: "string list \<Rightarrow> string" where
  "joinComma [] = []"
| "joinComma [x] = x"
| "joinComma (x # y # ys) = x @ '', '' @ joinComma (y # ys)"

section \<open>Papers\<close>

record Author =
  name :: string

text \<open>
  Modelled from the spec: the declaration of \<open>Paper\<close> is not among the sources; the spec gives
  its attributes, with year, venue, url, abstract and citation count optional. The author
  list is optional too, since the code reads it with \<open>p.authors?.map\<close>.
\<close>

record Paper =
  paperId :: string
  title :: string
  authors :: "Author list option"
  year :: "int option"
  venue :: "string option"
  url :: "string option"
  abstract :: "string option"
  citationCount :: "int option"

section \<open>Context assembly (getContextFromSelectedPapers)\<close>

subsection \<open>Candidates\<close>

text \<open>
  \<open>new Set(ids)\<close> keeps the first occurrence of each id, in insertion order, and that is
  the order \<open>forEach\<close> visits.
\<close>

definition setAdd :: "'a list \<Rightarrow> 'a \<Rightarrow> 'a list" where
  "setAdd s x = (if x \<in> set s then s else s @ [x])"

definition newSet :: "'a list \<Rightarrow> 'a list" where
  "newSet xs = fold (\<lambda>x s. setAdd s x) xs []"

text \<open>
  The two \<open>forEach\<close> loops: look the id up in the cache and push the paper when there is
  one. The accumulator is \<open>papersToConsider\<close>.
\<close>

fun pushCached :: "(string \<rightharpoonup> Paper) \<Rightarrow> string list \<Rightarrow> Paper list \<Rightarrow> Paper list" where
  "pushCached cache [] acc = acc"
| "pushCached cache (i # ids) acc =
     (case cache i of
        Some paper \<Rightarrow> pushCached cache ids (acc @ [paper])
      | None \<Rightarrow> pushCached cache ids acc)"

definition papersToConsider ::
  "string list \<Rightarrow> Paper list \<Rightarrow> (string \<rightharpoonup> Paper) \<Rightarrow> Paper list" where
  "papersToConsider selectedPaperIds papers cachedPapers =
     (let currentSelectedPaperIdSet = newSet selectedPaperIds in
      if length currentSelectedPaperIdSet > 0
      then pushCached cachedPapers currentSelectedPaperIdSet []
      else pushCached cachedPapers (map paperId papers) [])"

subsection \<open>Ordering\<close>

text \<open>The comparator handed to \<open>sort\<close>; \<open>x ?? 0\<close> is \<open>orZero x\<close>.\<close>

definition orZero :: "int option \<Rightarrow> int" where
  "orZero x = (case x of None \<Rightarrow> 0 | Some v \<Rightarrow> v)"

definition compareFn :: "Paper \<Rightarrow> Paper \<Rightarrow> int" where
  "compareFn a b =
     (let citationDiff = orZero (citationCount b) - orZero (citationCount a) in
      if citationDiff \<noteq> 0 then citationDiff
      else orZero (year b) - orZero (year a))"

text \<open>
  \<open>Array.prototype.sort\<close> is a stable sort: \<open>a\<close> stays before \<open>b\<close> unless the comparator
  is positive on them. Stable insertion gives that order.
\<close>

fun insertBy :: "('a \<Rightarrow> 'a \<Rightarrow> int) \<Rightarrow> 'a \<Rightarrow> 'a list \<Rightarrow> 'a list" where
  "insertBy cmp x [] = [x]"
| "insertBy cmp x (y # ys) =
     (if cmp x y \<le> 0 then x # y # ys else y # insertBy cmp x ys)"

definition sortBy :: "('a \<Rightarrow> 'a \<Rightarrow> int) \<Rightarrow> 'a list \<Rightarrow> 'a list" where
  "sortBy cmp xs = foldr (insertBy cmp) xs []"

subsection \<open>Blocks and the word budget\<close>

definition orNA :: "string option \<Rightarrow> string" where
  "orNA x = (case x of None \<Rightarrow> ''N/A'' | Some v \<Rightarrow> (if v = [] then ''N/A'' else v))"

definition authorNames :: "Paper \<Rightarrow> string" where
  "authorNames p = orNA (map_option (\<lambda>as. joinComma (map name as)) (authors p))"

definition yearText :: "Paper \<Rightarrow> string" where
  "yearText p = (case year p of None \<Rightarrow> ''N/A'' | Some y \<Rightarrow> (if y = 0 then ''N/A'' else showInt y))"

definition paperInfo :: "nat \<Rightarrow> Paper \<Rightarrow> string" where
  "paperInfo paperCounter p =
     ''['' @ showNat paperCounter @ ''] Title: '' @ title p @
     nl # ''Authors: '' @ authorNames p @
     nl # ''Year: '' @ yearText p @
     nl # ''Venue: '' @ orNA (venue p) @
     nl # ''URL: '' @ orNA (url p) @
     nl # ''Abstract: '' @ orNA (abstract p) @ [nl, nl]"

definition wordsOf :: "string \<Rightarrow> nat" where
  "wordsOf s = length (splitWs s)"

text \<open>The words proper of a text: the pieces of the split that are not empty.\<close>

definition properWords :: "string \<Rightarrow> nat" where
  "properWords s = length (filter (\<lambda>w. w \<noteq> []) (splitWs s))"

text \<open>
  The \<open>for\<close> loop over the sorted candidates. Its state is \<open>(context, wordCount,
  paperCounter)\<close>; \<open>break\<close> returns the state as it is. The budget is the constant
  \<open>MAX_CONTEXT_LENGTH_WORDS\<close>, whose value is not among the sources: a parameter.
\<close>

fun appendBlocks :: "nat \<Rightarrow> Paper list \<Rightarrow> string \<times> nat \<times> nat \<Rightarrow> string \<times> nat \<times> nat" where
  "appendBlocks budget [] st = st"
| "appendBlocks budget (p # ps) (context, wordCount, paperCounter) =
     (let info = paperInfo paperCounter p;
          currentPaperWordCount = wordsOf info
      in if wordCount + currentPaperWordCount \<le> budget
         then appendBlocks budget ps
                (context @ info, wordCount + currentPaperWordCount, paperCounter + 1)
         else (context, wordCount, paperCounter))"

definition contextLoop :: "nat \<Rightarrow> string list \<Rightarrow> Paper list \<Rightarrow> (string \<rightharpoonup> Paper) \<Rightarrow> string \<times> nat \<times> nat" where
  "contextLoop budget selectedPaperIds papers cachedPapers =
     appendBlocks budget
       (sortBy compareFn (papersToConsider selectedPaperIds papers cachedPapers))
       ([], 0, 1)"

definition getContextFromSelectedPapers ::
  "nat \<Rightarrow> string list \<Rightarrow> Paper list \<Rightarrow> (string \<rightharpoonup> Paper) \<Rightarrow> string" where
  "getContextFromSelectedPapers budget selectedPaperIds papers cachedPapers =
     trim (fst (contextLoop budget selectedPaperIds papers cachedPapers))"

text \<open>
  The blocks of a list of papers, labelled from \<open>n\<close> upwards, and the papers whose blocks
  the loop appended: it appended one block for each step of \<open>paperCounter\<close>, so they are
  the first \<open>paperCounter - 1\<close> sorted candidates.
\<close>

fun blocksFrom :: "nat \<Rightarrow> Paper list \<Rightarrow> string list" where
  "blocksFrom n [] = []"
| "blocksFrom n (p # ps) = paperInfo n p # blocksFrom (Suc n) ps"

definition includedPapers ::
  "nat \<Rightarrow> string list \<Rightarrow> Paper list \<Rightarrow> (string \<rightharpoonup> Paper) \<Rightarrow> Paper list" where
  "includedPapers budget selectedPaperIds papers cachedPapers =
     (case contextLoop budget selectedPaperIds papers cachedPapers of
        (context, wordCount, paperCounter) \<Rightarrow>
          take (paperCounter - 1)
            (sortBy compareFn (papersToConsider selectedPaperIds papers cachedPapers)))"


text \<open>Two papers of the spec's example scenario, and a third with nothing optional set.\<close>

definition paperP1 :: Paper where
  "paperP1 = \<lparr>paperId = ''P1'', title = ''Alpha beta'',
     authors = Some [\<lparr>name = ''Ann''\<rparr>, \<lparr>name = ''Bob''\<rparr>], year = Some 2020,
     venue = Some ''ICML'', url = None, abstract = Some ''x y'', citationCount = Some 10\<rparr>"

definition paperP2 :: Paper where
  "paperP2 = \<lparr>paperId = ''P2'', title = ''Gamma'',
     authors = Some [], year = Some 2019,
     venue = None, url = None, abstract = None, citationCount = Some 50\<rparr>"

definition paperP3 :: Paper where
  "paperP3 = \<lparr>paperId = ''P3'', title = ''Delta'',
     authors = None, year = None,
     venue = None, url = None, abstract = None, citationCount = None\<rparr>"

definition cacheEx :: "string \<rightharpoonup> Paper" where
  "cacheEx = [''P1'' \<mapsto> paperP1, ''P2'' \<mapsto> paperP2, ''P3'' \<mapsto> paperP3]"

section \<open>Requests to the remote services\<close>

datatype orRole = System | User | Assistant

record OpenRouterMessage =
  orRole :: orRole
  content :: string

text \<open>
  Every call of a remote service is recorded as a request: the paper search (topic, key,
  limit, offset), Gemini's one-shot generation (model, prompt, system instruction), a
  message sent to a Gemini chat (the chat's identity, the message) and OpenRouter's chat
  completion (model, messages). Each function returns the requests it sent, in order.
\<close>

datatype request =
  SemanticScholarSearch string string int int
| GeminiGenerateContent string string "string option"
| GeminiSendMessage nat string
| OpenRouterCompletion string "OpenRouterMessage list"

section \<open>The Gemini service module (services/gemini.ts)\<close>

text \<open>
  \<open>x || fallback\<close> on an optional string: the fallback replaces \<open>undefined\<close> and the empty
  string. \<open>s.includes(sub)\<close> looks for \<open>sub\<close> as a contiguous part of \<open>s\<close>.
\<close>

definition orElse :: "string option \<Rightarrow> string \<Rightarrow> string" where
  "orElse x d = (case x of None \<Rightarrow> d | Some v \<Rightarrow> (if v = [] then d else v))"

definition truthy :: "string option \<Rightarrow> bool" where
  "truthy x = (case x of None \<Rightarrow> False | Some v \<Rightarrow> v \<noteq> [])"

fun includesStr :: "string \<Rightarrow> string \<Rightarrow> bool" where
  "includesStr [] sub = (sub = [])"
| "includesStr (c # cs) sub = (take (length sub) (c # cs) = sub \<or> includesStr cs sub)"

record Part =
  partText :: string

record Content =
  role :: string
  parts :: "Part list"

text \<open>
  The client and the chat are objects of the provider's library, which is outside the
  repository. As the code's comments and the spec have it, a chat is a conversational
  context that the library maintains across turns: it is created from a model, a history
  and a configuration, and a turn that succeeds adds the user's and the model's content to
  the history it holds. \<open>chatId\<close> is the identity of the object: the number of chats
  created before it.
\<close>

record GoogleGenAI =
  clientApiKey :: string

record Chat =
  chatId :: nat
  chatModel :: string
  chatHistory :: "Content list"
  chatConfig :: "string option"

text \<open>
  \<open>chatSystemInstruction\<close> starts as \<open>null\<close> and is assigned the optional parameter, so it
  has three kinds of value, and \<open>null !== undefined\<close>.
\<close>

datatype jsString = Null | Undefined | Str string

definition ofParam :: "string option \<Rightarrow> jsString" where
  "ofParam x = (case x of None \<Rightarrow> Undefined | Some s \<Rightarrow> Str s)"

record GeminiModule =
  ai :: "GoogleGenAI option"
  activeApiKey :: "string option"
  geminiChatInstance :: "Chat option"
  chatApiKey :: "string option"
  chatSystemInstruction :: jsString
  chatModelUsed :: "string option"
  chatsCreated :: nat

definition moduleLoaded :: GeminiModule where
  "moduleLoaded = \<lparr>ai = None, activeApiKey = None, geminiChatInstance = None,
     chatApiKey = None, chatSystemInstruction = Null, chatModelUsed = None,
     chatsCreated = 0\<rparr>"

text \<open>What the provider answers to the one request of a call: a text, or an error with its message.\<close>

datatype remote = Replied string | Failed "string option"

definition getAi :: "string \<Rightarrow> GeminiModule \<Rightarrow> string + GoogleGenAI \<times> GeminiModule" where
  "getAi apiKey m =
     (case ai m of
        Some client \<Rightarrow>
          if activeApiKey m = Some apiKey then Inr (client, m)
          else if apiKey = [] then Inl ''Gemini API key is not set.''
          else Inr (\<lparr>clientApiKey = apiKey\<rparr>,
                    m\<lparr>ai := Some \<lparr>clientApiKey = apiKey\<rparr>, activeApiKey := Some apiKey\<rparr>)
      | None \<Rightarrow>
          if apiKey = [] then Inl ''Gemini API key is not set.''
          else Inr (\<lparr>clientApiKey = apiKey\<rparr>,
                    m\<lparr>ai := Some \<lparr>clientApiKey = apiKey\<rparr>, activeApiKey := Some apiKey\<rparr>))"

definition generateTextWithGemini ::
  "remote \<Rightarrow> string \<Rightarrow> string \<Rightarrow> string \<Rightarrow> string option \<Rightarrow> GeminiModule \<Rightarrow>
   (string + string) \<times> GeminiModule \<times> request list" where
  "generateTextWithGemini answer apiKey prompt model systemInstruction m =
     (case getAi apiKey m of
        Inl e \<Rightarrow> (Inl e, m, [])
      | Inr (currentAi, m1) \<Rightarrow>
          (case answer of
             Replied t \<Rightarrow> Inr t
           | Failed msg \<Rightarrow> Inl (''Gemini API error: '' @ orElse msg ''Unknown error''),
           m1,
           [GeminiGenerateContent model prompt
              (if truthy systemInstruction then systemInstruction else None)]))"

text \<open>
  The session lookup at the head of \<open>startOrContinueChatWithGemini\<close>: the client, then the
  chat, created anew unless there is one and the three stored values equal the arguments.
\<close>

definition needsNewChat :: "string \<Rightarrow> string \<Rightarrow> string option \<Rightarrow> GeminiModule \<Rightarrow> bool" where
  "needsNewChat apiKey model systemInstruction m \<longleftrightarrow>
     geminiChatInstance m = None \<or> chatApiKey m \<noteq> Some apiKey \<or>
     chatSystemInstruction m \<noteq> ofParam systemInstruction \<or> chatModelUsed m \<noteq> Some model"

definition chatsCreate :: "string \<Rightarrow> Content list \<Rightarrow> string option \<Rightarrow> GeminiModule \<Rightarrow> Chat" where
  "chatsCreate model history systemInstruction m =
     \<lparr>chatId = chatsCreated m, chatModel = model, chatHistory = history,
      chatConfig = (if truthy systemInstruction then systemInstruction else None)\<rparr>"

definition getOrCreateChat ::
  "string \<Rightarrow> Content list \<Rightarrow> string \<Rightarrow> string option \<Rightarrow> GeminiModule \<Rightarrow>
   string + Chat \<times> GeminiModule" where
  "getOrCreateChat apiKey history model systemInstruction m =
     (case getAi apiKey m of
        Inl e \<Rightarrow> Inl e
      | Inr (currentAi, m1) \<Rightarrow>
          (case geminiChatInstance m1 of
             Some chat \<Rightarrow>
               if needsNewChat apiKey model systemInstruction m1
               then Inr (chatsCreate model history systemInstruction m1,
                      m1\<lparr>geminiChatInstance := Some (chatsCreate model history systemInstruction m1),
                         chatApiKey := Some apiKey,
                         chatSystemInstruction := ofParam systemInstruction,
                         chatModelUsed := Some model,
                         chatsCreated := Suc (chatsCreated m1)\<rparr>)
               else Inr (chat, m1)
           | None \<Rightarrow>
               Inr (chatsCreate model history systemInstruction m1,
                      m1\<lparr>geminiChatInstance := Some (chatsCreate model history systemInstruction m1),
                         chatApiKey := Some apiKey,
                         chatSystemInstruction := ofParam systemInstruction,
                         chatModelUsed := Some model,
                         chatsCreated := Suc (chatsCreated m1)\<rparr>)))"

definition userContent :: "string \<Rightarrow> Content" where
  "userContent userMessage = \<lparr>role = ''user'', parts = [\<lparr>partText = userMessage\<rparr>]\<rparr>"

definition modelContent :: "string \<Rightarrow> Content" where
  "modelContent aiResponseText = \<lparr>role = ''model'', parts = [\<lparr>partText = aiResponseText\<rparr>]\<rparr>"

text \<open>The \<open>catch\<close> branch's test and what it assigns.\<close>

definition apiKeyNotValid :: "string option \<Rightarrow> bool" where
  "apiKeyNotValid msg = (case msg of None \<Rightarrow> False
     | Some t \<Rightarrow> t \<noteq> [] \<and> includesStr t ''API key not valid'')"

definition invalidate :: "GeminiModule \<Rightarrow> GeminiModule" where
  "invalidate m = m\<lparr>ai := None, activeApiKey := None, geminiChatInstance := None,
     chatApiKey := None, chatModelUsed := None\<rparr>"

definition startOrContinueChatWithGemini ::
  "remote \<Rightarrow> string \<Rightarrow> string \<Rightarrow> Content list \<Rightarrow> string \<Rightarrow> string option \<Rightarrow> GeminiModule \<Rightarrow>
   (string + string \<times> Content list) \<times> GeminiModule \<times> request list" where
  "startOrContinueChatWithGemini answer apiKey userMessage history model systemInstruction m =
     (case getOrCreateChat apiKey history model systemInstruction m of
        Inl e \<Rightarrow> (Inl e, m, [])
      | Inr (chat, m1) \<Rightarrow>
          (case answer of
             Replied aiResponseText \<Rightarrow>
               (Inr (aiResponseText,
                     history @ [userContent userMessage, modelContent aiResponseText]),
                m1\<lparr>geminiChatInstance :=
                     Some (chat\<lparr>chatHistory := chatHistory chat @
                             [userContent userMessage, modelContent aiResponseText]\<rparr>)\<rparr>,
                [GeminiSendMessage (chatId chat) userMessage])
           | Failed msg \<Rightarrow>
               (Inl (''Gemini Chat API error: '' @ orElse msg ''Unknown error''),
                if apiKeyNotValid msg then invalidate m1 else m1,
                [GeminiSendMessage (chatId chat) userMessage])))"

definition resetGeminiChat :: "GeminiModule \<Rightarrow> GeminiModule" where
  "resetGeminiChat m = m\<lparr>geminiChatInstance := None, chatApiKey := None,
     chatSystemInstruction := Null, chatModelUsed := None\<rparr>"

text \<open>
  A sequence of uses of the module, each call with the provider's answer: chat turns,
  one-shot generations and resets.
\<close>

datatype moduleOp =
  Turn remote string string "Content list" string "string option"
| Generate remote string string string "string option"
| Reset

fun applyOp :: "moduleOp \<Rightarrow> GeminiModule \<Rightarrow> GeminiModule" where
  "applyOp (Turn answer apiKey userMessage history model systemInstruction) m =
     fst (snd (startOrContinueChatWithGemini answer apiKey userMessage history model
                 systemInstruction m))"
| "applyOp (Generate answer apiKey prompt model systemInstruction) m =
     fst (snd (generateTextWithGemini answer apiKey prompt model systemInstruction m))"
| "applyOp Reset m = resetGeminiChat m"

definition runOps :: "moduleOp list \<Rightarrow> GeminiModule \<Rightarrow> GeminiModule" where
  "runOps ops m = fold applyOp ops m"

text \<open>
  What holds of the module in every state it can reach: the chat it holds was created
  earlier than any chat still to be created, and the client it holds was built from the
  active key, which is not empty.
\<close>

definition moduleInv :: "GeminiModule \<Rightarrow> bool" where
  "moduleInv m \<longleftrightarrow>
     (case geminiChatInstance m of None \<Rightarrow> True | Some c \<Rightarrow> chatId c < chatsCreated m) \<and>
     (case ai m of
        None \<Rightarrow> activeApiKey m = None
      | Some client \<Rightarrow> clientApiKey client \<noteq> [] \<and> activeApiKey m = Some (clientApiKey client))"

text \<open>Every chat the module holds, or will create, has an identity from \<open>n\<close> upwards.\<close>

definition chatsFrom :: "nat \<Rightarrow> GeminiModule \<Rightarrow> bool" where
  "chatsFrom n m \<longleftrightarrow>
     n \<le> chatsCreated m \<and>
     (case geminiChatInstance m of None \<Rightarrow> True | Some c \<Rightarrow> n \<le> chatId c)"

text \<open>
  An example: the module after one successful turn under the key \<open>g-key\<close> and the model
  \<open>model-a\<close>, and the chat it then holds.
\<close>

definition chatEx :: Chat where
  "chatEx = \<lparr>chatId = 0, chatModel = ''model-a'',
     chatHistory = [userContent ''q'', modelContent ''a''], chatConfig = Some ''sys''\<rparr>"

definition moduleEx :: GeminiModule where
  "moduleEx = \<lparr>ai = Some \<lparr>clientApiKey = ''g-key''\<rparr>, activeApiKey = Some ''g-key'',
     geminiChatInstance = Some chatEx, chatApiKey = Some ''g-key'',
     chatSystemInstruction = Str ''sys'', chatModelUsed = Some ''model-a'', chatsCreated = 1\<rparr>"

section \<open>The OpenRouter service module (services/openrouter.ts)\<close>

text \<open>
  What \<open>fetch\<close> and the decoding of its response come to: the request throws; the response
  is not ok, with the message taken from its body or its status text; the response has no
  choices; or it has a first choice with this content.
\<close>

datatype fetched =
  FetchThrew "string option"
| NotOk string
| NoChoices
| Choice string

definition openRouterError :: "string option \<Rightarrow> string" where
  "openRouterError msg = ''OpenRouter API error: '' @ orElse msg ''Unknown error''"

text \<open>\<open>if (systemInstruction) messages.push({ role: 'system', content: systemInstruction })\<close>\<close>

definition pushSystem :: "string option \<Rightarrow> OpenRouterMessage list" where
  "pushSystem systemInstruction =
     (case systemInstruction of
        None \<Rightarrow> []
      | Some s \<Rightarrow> (if s = [] then [] else [\<lparr>orRole = System, content = s\<rparr>]))"

definition requestMessages ::
  "string \<Rightarrow> string option \<Rightarrow> OpenRouterMessage list option \<Rightarrow> OpenRouterMessage list" where
  "requestMessages prompt systemInstruction history =
     pushSystem systemInstruction @
     (case history of None \<Rightarrow> [] | Some h \<Rightarrow> h) @
     [\<lparr>orRole = User, content = prompt\<rparr>]"

definition generateTextWithOpenRouter ::
  "fetched \<Rightarrow> string \<Rightarrow> string \<Rightarrow> string \<Rightarrow> string option \<Rightarrow> OpenRouterMessage list option \<Rightarrow>
   (string + string) \<times> request list" where
  "generateTextWithOpenRouter answer apiKey prompt model systemInstruction history =
     (if apiKey = [] then (Inl ''OpenRouter API key is not set.'', [])
      else
        (case answer of
           FetchThrew msg \<Rightarrow> Inl (openRouterError msg)
         | NotOk msg \<Rightarrow> Inl (openRouterError (Some (''OpenRouter API error: '' @ msg)))
         | NoChoices \<Rightarrow>
             Inl (openRouterError
                    (Some ''OpenRouter returned no choices or an unexpected response format.''))
         | Choice c \<Rightarrow> Inr c,
         [OpenRouterCompletion model (requestMessages prompt systemInstruction history)]))"

definition systemTurn :: "string option \<Rightarrow> OpenRouterMessage list \<Rightarrow> OpenRouterMessage list" where
  "systemTurn systemInstruction currentHistory =
     (if find (\<lambda>m. orRole m = System) currentHistory = None
      then pushSystem systemInstruction else [])"

definition chatWithOpenRouter ::
  "fetched \<Rightarrow> string \<Rightarrow> string \<Rightarrow> OpenRouterMessage list \<Rightarrow> string \<Rightarrow> string option \<Rightarrow>
   (string + string \<times> OpenRouterMessage list) \<times> request list" where
  "chatWithOpenRouter answer apiKey userMessage currentHistory model systemInstruction =
     (let messagesForApi =
            systemTurn systemInstruction currentHistory @
            currentHistory @ [\<lparr>orRole = User, content = userMessage\<rparr>]
      in case generateTextWithOpenRouter answer apiKey userMessage model None (Some currentHistory) of
           (Inl e, reqs) \<Rightarrow> (Inl e, reqs)
         | (Inr aiResponseText, reqs) \<Rightarrow>
             (Inr (aiResponseText,
                   messagesForApi @ [\<lparr>orRole = Assistant, content = aiResponseText\<rparr>]),
              reqs))"

section \<open>The application state and its handlers\<close>

text \<open>
  Modelled from the spec: the declarations of \<open>ApiProvider\<close>, \<open>ApiKeys\<close>, \<open>ChatMessage\<close> and
  \<open>GroundingChunk\<close> and the constants are not among the sources. The two providers are the
  spec's; the text a provider is printed with, the word budget and the page size are
  parameters.
\<close>

datatype ApiProvider = GEMINI | OPENROUTER

typedecl GroundingChunk

record ApiKeys =
  semanticScholar :: string
  gemini :: string
  openRouter :: string

datatype sender = FromUser | FromAi

record ChatMessage =
  msgId :: string
  sender :: sender
  msgText :: string
  timestamp :: nat

record Constants =
  MAX_CONTEXT_LENGTH_WORDS :: nat
  PAPERS_PER_PAGE :: int
  providerText :: "ApiProvider \<Rightarrow> string"

text \<open>
  The component's state variables that the handlers below read or assign, and the state of
  the Gemini module, which the handlers change through the module's functions.
\<close>

record App =
  apiKeys :: ApiKeys
  researchTopic :: string
  papers :: "Paper list"
  selectedPaperIds :: "string list"
  searchLoading :: bool
  searchError :: "string option"
  currentPage :: int
  totalPapers :: int
  cachedPapers :: "string \<rightharpoonup> Paper"
  generationProvider :: ApiProvider
  introContent :: string
  relatedWorksContent :: string
  introGrounding :: "GroundingChunk list option"
  relatedWorksGrounding :: "GroundingChunk list option"
  generationLoading :: bool
  introError :: "string option"
  relatedWorksError :: "string option"
  chatMessages :: "ChatMessage list"
  chatProvider :: ApiProvider
  chatLoading :: bool
  chatError :: "string option"
  geminiChatHistory :: "Content list"
  openRouterChatHistory :: "OpenRouterMessage list"
  selectedGeminiModel :: string
  selectedOpenRouterModel :: string
  geminiModule :: GeminiModule

text \<open>
  The two ternaries on the provider: \<open>provider === ApiProvider.GEMINI ? apiKeys.gemini :
  apiKeys.openRouter\<close> and the same choice between the two selected models.
\<close>

definition providerKey :: "ApiProvider \<Rightarrow> ApiKeys \<Rightarrow> string" where
  "providerKey provider keys = (if provider = GEMINI then gemini keys else openRouter keys)"

definition selectedModel :: "ApiProvider \<Rightarrow> App \<Rightarrow> string" where
  "selectedModel provider st =
     (if provider = GEMINI then selectedGeminiModel st else selectedOpenRouterModel st)"

subsection \<open>Model changes\<close>

definition handleSelectedGeminiModelChange :: "string \<Rightarrow> App \<Rightarrow> App" where
  "handleSelectedGeminiModelChange model st =
     st\<lparr>selectedGeminiModel := model,
        geminiModule := resetGeminiChat (geminiModule st),
        geminiChatHistory := []\<rparr>"

definition handleSelectedOpenRouterModelChange :: "string \<Rightarrow> App \<Rightarrow> App" where
  "handleSelectedOpenRouterModelChange model st =
     st\<lparr>selectedOpenRouterModel := model, openRouterChatHistory := []\<rparr>"

subsection \<open>Search\<close>

datatype searched = SearchReturned "Paper list" int | SearchThrew "string option"

definition recordFetch :: "Paper list \<Rightarrow> (string \<rightharpoonup> Paper) \<Rightarrow> (string \<rightharpoonup> Paper)" where
  "recordFetch ps prevCache = fold (\<lambda>p newCache. newCache(paperId p \<mapsto> p)) ps prevCache"

definition fetchPapersForPage ::
  "Constants \<Rightarrow> searched \<Rightarrow> string \<Rightarrow> int \<Rightarrow> App \<Rightarrow> App \<times> request list" where
  "fetchPapersForPage k answer topic page st =
     (if semanticScholar (apiKeys st) = []
      then (st\<lparr>searchError := Some ''Semantic Scholar API key is not set.'',
                papers := [], totalPapers := 0\<rparr>, [])
      else
        (let st1 = st\<lparr>searchLoading := True, searchError := None\<rparr>;
             offset = (page - 1) * PAPERS_PER_PAGE k;
             st2 = (case answer of
                      SearchReturned ps n \<Rightarrow>
                        st1\<lparr>papers := ps, totalPapers := n, currentPage := page,
                            cachedPapers := recordFetch ps (cachedPapers st1)\<rparr>
                    | SearchThrew msg \<Rightarrow>
                        st1\<lparr>searchError := Some (orElse msg ''Failed to fetch papers.''),
                            papers := [], totalPapers := 0\<rparr>)
         in (st2\<lparr>searchLoading := False\<rparr>,
             [SemanticScholarSearch topic (semanticScholar (apiKeys st)) (PAPERS_PER_PAGE k) offset])))"

text \<open>\<open>handleSearch\<close>: the seven assignments, then the fetch of page 1.\<close>

definition searchReset :: "string \<Rightarrow> App \<Rightarrow> App" where
  "searchReset topic st =
     st\<lparr>researchTopic := topic, selectedPaperIds := [], introContent := [],
        relatedWorksContent := [], introGrounding := None, relatedWorksGrounding := None,
        cachedPapers := Map.empty\<rparr>"

definition handleSearch :: "Constants \<Rightarrow> searched \<Rightarrow> string \<Rightarrow> App \<Rightarrow> App \<times> request list" where
  "handleSearch k answer topic st = fetchPapersForPage k answer topic 1 (searchReset topic st)"

subsection \<open>Section generation\<close>

datatype sectionType = Introduction | RelatedWorks

text \<open>What each provider answers, should the handler call it.\<close>

record Answers =
  geminiAnswer :: remote
  openRouterAnswer :: fetched

definition promptAction :: "sectionType \<Rightarrow> string" where
  "promptAction sectionType =
     (case sectionType of Introduction \<Rightarrow> ''an introduction''
      | RelatedWorks \<Rightarrow> ''a related works section'')"

definition generationPrompt :: "string \<Rightarrow> sectionType \<Rightarrow> string \<Rightarrow> string" where
  "generationPrompt topic sectionType context =
     nl # ''You are an academic writing assistant. Based on the following research papers (each prefixed with a number like [1], [2], etc.) related to the research topic '' @
       CHR 0x22 # topic @ CHR 0x22 # '', write '' @ promptAction sectionType @ '' for a new research paper.'' @
     nl # ''Instructions:'' @
     nl # ''1. The tone should be academic, formal, and objective.'' @
     nl # ''2. Synthesize information from the provided papers to create a coherent narrative. Do not simply summarize each paper individually.'' @
     nl # ''3. When you use information or ideas from a specific paper in the context, you MUST cite it using its corresponding number in square brackets (e.g., [1], [2]).'' @
     nl # ''4. Ensure that citations are placed appropriately within the text.'' @
     nl # ''5. At the end of the generated section, you MUST include a 'References' section.'' @
     nl # ''6. In the 'References' section, list all papers that you cited. Use the corresponding number for each reference.'' @
     nl # ''7. For each reference, include the authors, year, title, and venue. If a URL is available, you can include it. Format example:'' @
     nl # ''   [1] Author, A. A., & Author, B. B. (Year). Title of paper. *Venue*. URL (if available)'' @
     nl # ''   [2] Author, C. C., et al. (Year). Another title. *Conference or Journal Name*.'' @
     nl # ''Context Papers:'' @
     nl # context @
     nl # ''Begin the '' @ promptAction sectionType @ '' now:''"

definition generationSystemInstruction :: string where
  "generationSystemInstruction = ''You are an expert academic writing assistant specializing in drafting research paper sections with proper citations and references according to the user's detailed instructions. Adhere strictly to the citation and reference formatting provided.''"

text \<open>
  The start of an attempt (the loading flag, then the slot's error, content and grounding)
  and its end (\<open>try\<close>, \<open>catch\<close>, \<open>finally\<close>): the text is stored with \<open>groundingData\<close>,
  which is never assigned, or the error's message is stored.
\<close>

definition beginAttempt :: "sectionType \<Rightarrow> App \<Rightarrow> App" where
  "beginAttempt sectionType st =
     (case sectionType of
        Introduction \<Rightarrow>
          st\<lparr>generationLoading := True, introError := None, introContent := [],
             introGrounding := None\<rparr>
      | RelatedWorks \<Rightarrow>
          st\<lparr>generationLoading := True, relatedWorksError := None, relatedWorksContent := [],
             relatedWorksGrounding := None\<rparr>)"

definition finishAttempt :: "sectionType \<Rightarrow> string + string \<Rightarrow> App \<Rightarrow> App" where
  "finishAttempt sectionType outcome st =
     (case outcome of
        Inr resultText \<Rightarrow>
          (case sectionType of
             Introduction \<Rightarrow> st\<lparr>introContent := resultText, introGrounding := None\<rparr>
           | RelatedWorks \<Rightarrow> st\<lparr>relatedWorksContent := resultText, relatedWorksGrounding := None\<rparr>)
      | Inl message \<Rightarrow>
          (case sectionType of
             Introduction \<Rightarrow> st\<lparr>introError := Some message\<rparr>
           | RelatedWorks \<Rightarrow> st\<lparr>relatedWorksError := Some message\<rparr>))
     \<lparr>generationLoading := False\<rparr>"

text \<open>The call of the selected provider: its outcome, the Gemini module after it, the requests.\<close>

definition dispatchGeneration ::
  "Answers \<Rightarrow> ApiProvider \<Rightarrow> string \<Rightarrow> string \<Rightarrow> string \<Rightarrow> GeminiModule \<Rightarrow>
   (string + string) \<times> GeminiModule \<times> request list" where
  "dispatchGeneration answers provider apiKey prompt modelToUse m =
     (if provider = GEMINI
      then generateTextWithGemini (geminiAnswer answers) apiKey prompt modelToUse
             (Some generationSystemInstruction) m
      else (case generateTextWithOpenRouter (openRouterAnswer answers) apiKey prompt modelToUse
                   (Some generationSystemInstruction) None of
              (outcome, reqs) \<Rightarrow> (outcome, m, reqs)))"

text \<open>The call as \<open>handleGenerateSection\<close> makes it, from the state it was invoked in.\<close>

definition attemptDispatch ::
  "Constants \<Rightarrow> Answers \<Rightarrow> sectionType \<Rightarrow> App \<Rightarrow> (string + string) \<times> GeminiModule \<times> request list" where
  "attemptDispatch k answers sectionType st =
     dispatchGeneration answers (generationProvider st)
       (providerKey (generationProvider st) (apiKeys st))
       (generationPrompt (researchTopic st) sectionType
          (getContextFromSelectedPapers (MAX_CONTEXT_LENGTH_WORDS k) (selectedPaperIds st)
             (papers st) (cachedPapers st)))
       (selectedModel (generationProvider st) st) (geminiModule st)"

text \<open>
  \<open>handleGenerateSection\<close> returns the state, the messages shown with \<open>alert\<close> and the
  requests sent.
\<close>

definition handleGenerateSection ::
  "Constants \<Rightarrow> Answers \<Rightarrow> sectionType \<Rightarrow> App \<Rightarrow> App \<times> string list \<times> request list" where
  "handleGenerateSection k answers sectionType st =
     (let context = getContextFromSelectedPapers (MAX_CONTEXT_LENGTH_WORDS k)
                      (selectedPaperIds st) (papers st) (cachedPapers st)
      in if researchTopic st = [] then (st, [''Please search for a topic first.''], [])
         else if context = [] then (st, [''No papers available to provide context.''], [])
         else
           (let apiKey = providerKey (generationProvider st) (apiKeys st);
                modelToUse = selectedModel (generationProvider st) st
            in if apiKey = []
               then (st, [''API key for '' @ providerText k (generationProvider st) @ '' is not set.''], [])
               else if modelToUse = []
               then (st, [''Model for '' @ providerText k (generationProvider st) @ '' is not selected.''], [])
               else
                 (case dispatchGeneration answers (generationProvider st) apiKey
                         (generationPrompt (researchTopic st) sectionType context) modelToUse
                         (geminiModule st) of
                    (outcome, m, reqs) \<Rightarrow>
                      (finishAttempt sectionType outcome
                         ((beginAttempt sectionType st)\<lparr>geminiModule := m\<rparr>),
                       [], reqs))))"

text \<open>The three parts of a section's slot, and the other section.\<close>

definition slotContent :: "sectionType \<Rightarrow> App \<Rightarrow> string" where
  "slotContent sectionType st =
     (case sectionType of Introduction \<Rightarrow> introContent st | RelatedWorks \<Rightarrow> relatedWorksContent st)"

definition slotError :: "sectionType \<Rightarrow> App \<Rightarrow> string option" where
  "slotError sectionType st =
     (case sectionType of Introduction \<Rightarrow> introError st | RelatedWorks \<Rightarrow> relatedWorksError st)"

definition slotGrounding :: "sectionType \<Rightarrow> App \<Rightarrow> GroundingChunk list option" where
  "slotGrounding sectionType st =
     (case sectionType of Introduction \<Rightarrow> introGrounding st
      | RelatedWorks \<Rightarrow> relatedWorksGrounding st)"

definition otherSection :: "sectionType \<Rightarrow> sectionType" where
  "otherSection sectionType =
     (case sectionType of Introduction \<Rightarrow> RelatedWorks | RelatedWorks \<Rightarrow> Introduction)"

subsection \<open>Chat\<close>

definition chatSystemInstructionText :: string where
  "chatSystemInstructionText = ''You are a helpful AI assistant specialized in research-related queries. Be concise and informative.''"

text \<open>
  \<open>handleSendMessage\<close>. The clock is read when the user's message is built (\<open>t0\<close>) and
  again when the reply or the error message is built (\<open>t1\<close>).
\<close>

definition aiMessage :: "nat \<Rightarrow> string \<Rightarrow> ChatMessage" where
  "aiMessage t1 body = \<lparr>msgId = showNat (t1 + 1), sender = FromAi, msgText = body, timestamp = t1\<rparr>"

definition handleSendMessage ::
  "Constants \<Rightarrow> Answers \<Rightarrow> nat \<Rightarrow> nat \<Rightarrow> string \<Rightarrow> ApiProvider \<Rightarrow> string \<Rightarrow> App \<Rightarrow>
   App \<times> request list" where
  "handleSendMessage k answers t0 t1 messageText provider model st =
     (let userMessage = \<lparr>msgId = showNat t0, sender = FromUser, msgText = messageText, timestamp = t0\<rparr>;
          st1 = st\<lparr>chatMessages := chatMessages st @ [userMessage], chatLoading := True,
                  chatError := None\<rparr>;
          apiKey = providerKey provider (apiKeys st)
      in if apiKey = [] \<or> model = []
         then
           (let errorMsg = (if apiKey = []
                            then ''API key for '' @ providerText k provider @ '' is not set.''
                            else ''Model for '' @ providerText k provider @ '' is not selected.'')
            in (st1\<lparr>chatError := Some errorMsg, chatLoading := False,
                    chatMessages := chatMessages st1 @ [aiMessage t1 (''Error: '' @ errorMsg)]\<rparr>,
                []))
         else if provider = GEMINI
         then
           (case startOrContinueChatWithGemini (geminiAnswer answers) apiKey messageText
                   (geminiChatHistory st) model (Some chatSystemInstructionText) (geminiModule st) of
              (Inr (geminiText, newGeminiHistory), m, reqs) \<Rightarrow>
                (st1\<lparr>geminiModule := m, geminiChatHistory := newGeminiHistory,
                     chatMessages := chatMessages st1 @ [aiMessage t1 geminiText],
                     chatLoading := False\<rparr>, reqs)
            | (Inl message, m, reqs) \<Rightarrow>
                (st1\<lparr>geminiModule := m,
                     chatError := Some (orElse (Some message)
                        (''Failed to get response from '' @ providerText k provider @ ''.'')),
                     chatMessages := chatMessages st1 @ [aiMessage t1 (''Error: '' @ message)],
                     chatLoading := False\<rparr>, reqs))
         else
           (case chatWithOpenRouter (openRouterAnswer answers) apiKey messageText
                   (openRouterChatHistory st) model (Some chatSystemInstructionText) of
              (Inr (orText, newOrHistory), reqs) \<Rightarrow>
                (st1\<lparr>openRouterChatHistory := newOrHistory,
                     chatMessages := chatMessages st1 @ [aiMessage t1 orText],
                     chatLoading := False\<rparr>, reqs)
            | (Inl message, reqs) \<Rightarrow>
                (st1\<lparr>chatError := Some (orElse (Some message)
                        (''Failed to get response from '' @ providerText k provider @ ''.'')),
                     chatMessages := chatMessages st1 @ [aiMessage t1 (''Error: '' @ message)],
                     chatLoading := False\<rparr>, reqs)))"

text \<open>The message of the chat's check of key and model, as \<open>handleSendMessage\<close> builds it.\<close>

definition chatValidationError :: "Constants \<Rightarrow> ApiProvider \<Rightarrow> App \<Rightarrow> string" where
  "chatValidationError k provider st =
     (if providerKey provider (apiKeys st) = []
      then ''API key for '' @ providerText k provider @ '' is not set.''
      else ''Model for '' @ providerText k provider @ '' is not selected.'')"

text \<open>The papers a search brought back: those of the response, when the request was made.\<close>

definition returnedPapers :: "App \<Rightarrow> searched \<Rightarrow> Paper set" where
  "returnedPapers st answer =
     (case answer of
        SearchReturned ps n \<Rightarrow> (if semanticScholar (apiKeys st) = [] then {} else set ps)
      | SearchThrew msg \<Rightarrow> {})"

subsection \<open>Example states\<close>

definition constantsEx :: Constants where
  "constantsEx = \<lparr>MAX_CONTEXT_LENGTH_WORDS = 100, PAPERS_PER_PAGE = 10,
     providerText = (\<lambda>p. case p of GEMINI \<Rightarrow> ''Gemini'' | OPENROUTER \<Rightarrow> ''OpenRouter'')\<rparr>"

text \<open>
  A state in the middle of a session: a topic searched, both keys and models set, P1 and P2
  selected, both sections generated once, a chat with each provider under way.
\<close>

definition appEx :: App where
  "appEx = \<lparr>apiKeys = \<lparr>semanticScholar = ''s2-key'', gemini = ''g-key'', openRouter = ''or-key''\<rparr>,
     researchTopic = ''graphs'', papers = [paperP3], selectedPaperIds = [''P1'', ''P2''],
     searchLoading = False, searchError = None, currentPage = 1, totalPapers = 3,
     cachedPapers = cacheEx, generationProvider = GEMINI,
     introContent = ''Old intro'', relatedWorksContent = ''Old related'',
     introGrounding = Some [], relatedWorksGrounding = Some [],
     generationLoading = False, introError = Some ''old error'',
     relatedWorksError = Some ''older error'',
     chatMessages = [], chatProvider = GEMINI, chatLoading = False, chatError = None,
     geminiChatHistory = [userContent ''q'', modelContent ''a''],
     openRouterChatHistory = [],
     selectedGeminiModel = ''model-a'', selectedOpenRouterModel = ''or-model'',
     geminiModule = moduleLoaded\<rparr>"

definition answersEx :: Answers where
  "answersEx = \<lparr>geminiAnswer = Failed (Some ''quota''), openRouterAnswer = Choice ''yo''\<rparr>"

section \<open>Properties of context assembly\<close>

lemma isSpace_iff:
  "isSpace c \<longleftrightarrow> c = CHR 0x09 \<or> c = CHR 0x0A \<or> c = CHR 0x0B \<or> c = CHR 0x0C \<or>
     c = CHR 0x0D \<or> c = CHR 0x20 \<or> c = CHR 0xA0"
  by (simp add: isSpace_def)

lemmas render_defs =
  wordsOf_def splitWs_def paperInfo_def isSpace_iff nl_def orNA_def authorNames_def
  yearText_def showInt_def digitChar_def trim_def

lemma digitChar_values:
  "digitChar 0 = CHR ''0''" "digitChar 1 = CHR ''1''" "digitChar 2 = CHR ''2''"
  "digitChar 3 = CHR ''3''" "digitChar 4 = CHR ''4''" "digitChar 5 = CHR ''5''"
  "digitChar 6 = CHR ''6''" "digitChar 7 = CHR ''7''" "digitChar 8 = CHR ''8''"
  "digitChar 9 = CHR ''9''"
  by (simp_all add: digitChar_def eval_nat_numeral)

lemmas example_defs = paperP1_def paperP2_def paperP3_def cacheEx_def

subsection \<open>Candidates\<close>

lemma pushCached_map_filter: "pushCached cache ids acc = acc @ List.map_filter cache ids"
  by (induction ids arbitrary: acc) (auto split: option.splits)

lemma fold_setAdd_set: "set (fold (\<lambda>x s. setAdd s x) xs acc) = set acc \<union> set xs"
  by (induction xs arbitrary: acc) (auto simp: setAdd_def)

lemma fold_setAdd_distinct: "distinct acc \<Longrightarrow> distinct (fold (\<lambda>x s. setAdd s x) xs acc)"
  by (induction xs arbitrary: acc) (auto simp: setAdd_def)

lemma set_newSet: "set (newSet xs) = set xs"
  by (simp add: newSet_def fold_setAdd_set)

lemma distinct_newSet: "distinct (newSet xs)"
  by (simp add: newSet_def fold_setAdd_distinct)

lemma newSet_Nil_iff: "newSet xs = [] \<longleftrightarrow> xs = []"
  using set_newSet [of xs] by (metis set_empty)

lemma set_map_filter: "set (List.map_filter f xs) = {y. \<exists>x \<in> set xs. f x = Some y}"
  by (induction xs) (auto split: option.splits)

lemma map_filter_all_None: "(\<forall>x \<in> set xs. f x = None) \<Longrightarrow> List.map_filter f xs = []"
  by (induction xs) auto

lemma papersToConsider_selected:
  "sel \<noteq> [] \<Longrightarrow> papersToConsider sel page cache = List.map_filter cache (newSet sel)"
  by (simp add: papersToConsider_def Let_def pushCached_map_filter newSet_Nil_iff)

lemma papersToConsider_page:
  "papersToConsider [] page cache = List.map_filter cache (map paperId page)"
  by (simp add: papersToConsider_def Let_def pushCached_map_filter newSet_def)

text \<open>
  C8: with a non-empty selection the candidates are the cached papers of the selected ids,
  one for each distinct id, in the order the ids were first selected; an id that is not in
  the cache is dropped (there is no error value to return), and when every selected id
  misses the cache there are no candidates: the page is not consulted. With an empty
  selection the candidates are the page's papers looked up in the cache.
\<close>

theorem candidates_from_selection_or_page:
  "set (newSet sel) = set sel \<and> distinct (newSet sel) \<and>
   (sel \<noteq> [] \<longrightarrow>
      papersToConsider sel page cache = List.map_filter cache (newSet sel) \<and>
      set (papersToConsider sel page cache) = {p. \<exists>i \<in> set sel. cache i = Some p} \<and>
      ((\<forall>i \<in> set sel. cache i = None) \<longrightarrow> papersToConsider sel page cache = [])) \<and>
   (sel = [] \<longrightarrow>
      papersToConsider sel page cache = List.map_filter cache (map paperId page))"
  using papersToConsider_selected [of sel page cache] papersToConsider_page [of page cache]
    set_newSet [of sel] distinct_newSet [of sel]
  by (auto simp: set_map_filter map_filter_all_None)

theorem candidates_from_selection_or_page_witness:
  "papersToConsider [''P1'', ''P9'', ''P1'', ''P2''] [paperP3] cacheEx = [paperP1, paperP2] \<and>
   papersToConsider [''P8'', ''P9''] [paperP3] cacheEx = [] \<and>
   papersToConsider [] [paperP3, paperP3\<lparr>paperId := ''P7''\<rparr>] cacheEx = [paperP3]"
proof -
  have h1: "[''P1'', ''P9'', ''P1'', ''P2''] \<noteq> []" and h2: "[''P8'', ''P9''] \<noteq> []"
    by simp_all
  have h3: "\<forall>i \<in> set [''P8'', ''P9'']. cacheEx i = None"
    by (simp add: cacheEx_def)
  have n: "newSet [''P1'', ''P9'', ''P1'', ''P2''] = [''P1'', ''P9'', ''P2'']"
    by (simp add: newSet_def setAdd_def)
  have a: "papersToConsider [''P1'', ''P9'', ''P1'', ''P2''] [paperP3] cacheEx =
             List.map_filter cacheEx (newSet [''P1'', ''P9'', ''P1'', ''P2''])"
    using candidates_from_selection_or_page [of "[''P1'', ''P9'', ''P1'', ''P2'']" "[paperP3]" cacheEx] h1
    by blast
  have b: "papersToConsider [''P8'', ''P9''] [paperP3] cacheEx = []"
    using candidates_from_selection_or_page [of "[''P8'', ''P9'']" "[paperP3]" cacheEx] h2 h3
    by blast
  have c: "papersToConsider [] [paperP3, paperP3\<lparr>paperId := ''P7''\<rparr>] cacheEx =
             List.map_filter cacheEx (map paperId [paperP3, paperP3\<lparr>paperId := ''P7''\<rparr>])"
    using candidates_from_selection_or_page [of "[]" "[paperP3, paperP3\<lparr>paperId := ''P7''\<rparr>]" cacheEx]
    by blast
  show ?thesis
    unfolding a b c n by (simp add: example_defs)
qed

subsection \<open>Ordering\<close>





lemma mset_insertBy: "mset (insertBy cmp x ys) = add_mset x (mset ys)"
  by (induction ys) auto



lemma mset_sortBy: "mset (sortBy cmp xs) = mset xs"
  unfolding sortBy_def by (induction xs) (auto simp: mset_insertBy)


subsection \<open>The loop\<close>

lemma appendBlocks_char:
  "appendBlocks B ps (ctx, wc, n) = (ctx', wc', n') \<Longrightarrow>
     n \<le> n' \<and> n' - n \<le> length ps \<and>
     ctx' = ctx @ concat (blocksFrom n (take (n' - n) ps)) \<and>
     wc' = wc + sum_list (map wordsOf (blocksFrom n (take (n' - n) ps))) \<and>
     (n' - n < length ps \<longrightarrow> B < wc' + wordsOf (paperInfo n' (ps ! (n' - n))))"
proof (induction ps arbitrary: ctx wc n)
  case Nil
  then show ?case by simp
next
  case (Cons p ps)
  show ?case
  proof (cases "wc + wordsOf (paperInfo n p) \<le> B")
    case True
    with Cons.prems have
      "appendBlocks B ps (ctx @ paperInfo n p, wc + wordsOf (paperInfo n p), Suc n) = (ctx', wc', n')"
      by (simp add: Let_def)
    from Cons.IH [OF this] have ih:
      "Suc n \<le> n'" "n' - Suc n \<le> length ps"
      "ctx' = (ctx @ paperInfo n p) @ concat (blocksFrom (Suc n) (take (n' - Suc n) ps))"
      "wc' = (wc + wordsOf (paperInfo n p)) +
             sum_list (map wordsOf (blocksFrom (Suc n) (take (n' - Suc n) ps)))"
      "n' - Suc n < length ps \<longrightarrow> B < wc' + wordsOf (paperInfo n' (ps ! (n' - Suc n)))"
      by auto
    from ih(1) have d: "n' - n = Suc (n' - Suc n)" by simp
    show ?thesis
      using ih unfolding d by simp
  next
    case False
    with Cons.prems have "ctx' = ctx" "wc' = wc" "n' = n"
      by (simp_all add: Let_def)
    with False show ?thesis by simp
  qed
qed

lemma appendBlocks_budget:
  "appendBlocks B ps (ctx, wc, n) = (ctx', wc', n') \<Longrightarrow> wc \<le> B \<Longrightarrow> wc' \<le> B"
proof (induction ps arbitrary: ctx wc n)
  case Nil
  then show ?case by simp
next
  case (Cons p ps)
  then show ?case
    by (cases "wc + wordsOf (paperInfo n p) \<le> B") (auto simp: Let_def)
qed

lemma splitFrom_nonempty: "splitFrom cur s \<noteq> []"
  by (induction cur s rule: splitFrom.induct) auto

lemma wordsOf_pos: "0 < wordsOf s"
  by (simp add: wordsOf_def splitWs_def splitFrom_nonempty)

lemma trim_Nil: "trim [] = []"
  by (simp add: trim_def)

lemma contextLoop_cases:
  obtains ctx wc n where
    "contextLoop budget sel page cache = (ctx, wc, n)"
    "includedPapers budget sel page cache =
       take (n - 1) (sortBy compareFn (papersToConsider sel page cache))"
    "ctx = concat (blocksFrom 1 (includedPapers budget sel page cache))"
    "wc = sum_list (map wordsOf (blocksFrom 1 (includedPapers budget sel page cache)))"
    "wc \<le> budget"
    "n - 1 < length (sortBy compareFn (papersToConsider sel page cache)) \<longrightarrow>
       budget < wc + wordsOf (paperInfo n
                  (sortBy compareFn (papersToConsider sel page cache) ! (n - 1)))"
proof -
  let ?cands = "sortBy compareFn (papersToConsider sel page cache)"
  obtain ctx wc n where r: "appendBlocks budget ?cands ([], 0, 1) = (ctx, wc, n)"
    by (metis prod_cases3)
  note ch = appendBlocks_char [OF r]
  have cl: "contextLoop budget sel page cache = (ctx, wc, n)"
    using r by (simp add: contextLoop_def)
  have inc: "includedPapers budget sel page cache = take (n - 1) ?cands"
    using cl by (simp add: includedPapers_def)
  have c1: "ctx = concat (blocksFrom 1 (take (n - 1) ?cands))"
    using ch by simp
  have c2: "wc = sum_list (map wordsOf (blocksFrom 1 (take (n - 1) ?cands)))"
    using ch by simp
  have c3: "n - 1 < length ?cands \<longrightarrow> budget < wc + wordsOf (paperInfo n (?cands ! (n - 1)))"
    using ch by blast
  have le: "wc \<le> budget"
    using appendBlocks_budget [OF r] by simp
  show ?thesis
    using that [OF cl inc] c1 c2 c3 le unfolding inc by blast
qed


lemmas loop_defs =
  contextLoop_def papersToConsider_def newSet_def setAdd_def sortBy_def compareFn_def
  orZero_def Let_def

lemma ex_loop_100:
  "contextLoop 100 [''P1'', ''P2''] page cacheEx = (paperInfo 1 paperP2 @ paperInfo 2 paperP1, 31, 3)"
  by (simp add: loop_defs example_defs render_defs)


subsection \<open>The count of a block\<close>

text \<open>
  A text that starts with a character that is not whitespace and ends with whitespace
  splits into its words and one empty piece, the last. Every block is such a text: it
  starts with a bracket and ends with two line feeds. So the loop counts one more than
  the block's words, for every block.
\<close>

lemma last_dropWhile: "dropWhile P xs \<noteq> [] \<Longrightarrow> last (dropWhile P xs) = last xs"
  by (induction xs) (auto split: if_splits)

lemma dropWhile_Nil_last: "dropWhile P xs = [] \<Longrightarrow> xs \<noteq> [] \<Longrightarrow> P (last xs)"
  by (induction xs) (auto split: if_splits)

lemma dropWhile_hd: "dropWhile P xs \<noteq> [] \<Longrightarrow> \<not> P (hd (dropWhile P xs))"
  by (induction xs) auto

lemma splitFrom_empty_pieces:
  "cur \<noteq> [] \<or> s = [] \<or> \<not> isSpace (hd s) \<Longrightarrow>
   length (filter (\<lambda>w. w = []) (splitFrom cur s)) =
     (if (s = [] \<and> cur = []) \<or> (s \<noteq> [] \<and> isSpace (last s)) then 1 else 0)"
proof (induction cur s rule: splitFrom.induct)
  case (1 cur)
  then show ?case by simp
next
  case (2 cur c cs)
  show ?case
  proof (cases "isSpace c")
    case True
    with "2.prems" have cur: "cur \<noteq> []" by simp
    let ?r = "dropWhile isSpace cs"
    have h: "[] \<noteq> ([]::string) \<or> ?r = [] \<or> \<not> isSpace (hd ?r)"
      using dropWhile_hd [of isSpace cs] by blast
    note ih = "2.IH"(1) [OF True h]
    have e: "(?r = [] \<or> isSpace (last ?r)) \<longleftrightarrow> isSpace (last (c # cs))"
    proof (cases "?r = []")
      case True
      then show ?thesis
        using dropWhile_Nil_last [of isSpace cs] \<open>isSpace c\<close> by (cases "cs = []") auto
    next
      case False
      then have "cs \<noteq> []" by auto
      then show ?thesis
        using False last_dropWhile [of isSpace cs] by auto
    qed
    show ?thesis
      using True cur ih e by auto
  next
    case False
    have h: "cur @ [c] \<noteq> [] \<or> cs = [] \<or> \<not> isSpace (hd cs)" by simp
    note ih = "2.IH"(2) [OF False h]
    show ?thesis
      using False ih by (cases "cs = []") auto
  qed
qed

lemma length_filter_split: "length xs = length (filter P xs) + length (filter (\<lambda>x. \<not> P x) xs)"
  by (induction xs) auto

lemma wordsOf_proper:
  "s \<noteq> [] \<Longrightarrow> \<not> isSpace (hd s) \<Longrightarrow> isSpace (last s) \<Longrightarrow> wordsOf s = Suc (properWords s)"
  using splitFrom_empty_pieces [of "[]" s]
    length_filter_split [of "splitFrom [] s" "\<lambda>w. w \<noteq> []"]
  by (simp add: wordsOf_def properWords_def splitWs_def)

lemma paperInfo_shape:
  "paperInfo n p \<noteq> [] \<and> hd (paperInfo n p) = CHR ''['' \<and> last (paperInfo n p) = nl"
  by (simp add: paperInfo_def)

lemma wordsOf_paperInfo: "wordsOf (paperInfo n p) = Suc (properWords (paperInfo n p))"
  using paperInfo_shape [of n p]
  by (intro wordsOf_proper) (simp_all add: isSpace_iff nl_def)

lemma wordsOf_blocks:
  "sum_list (map wordsOf (blocksFrom n ps)) =
     sum_list (map properWords (blocksFrom n ps)) + length ps"
  by (induction ps arbitrary: n) (simp_all add: wordsOf_paperInfo)

lemma exact_fit_refused:
  assumes "sortBy compareFn (papersToConsider sel page cache) = p # ps"
    and "properWords (paperInfo 1 p) = budget"
  shows "contextLoop budget sel page cache = ([], 0, 1)"
    and "getContextFromSelectedPapers budget sel page cache = []"
  using assms wordsOf_paperInfo [of 1 p]
  by (simp_all add: getContextFromSelectedPapers_def contextLoop_def trim_Nil Let_def)

text \<open>
  What the loop does, in its own count: the counts of the appended blocks (for each, its
  words and one) add up to \<open>wordCount\<close>, which never exceeds the budget; the appended
  blocks are those of a prefix of the sorted candidates, and when the prefix is not the
  whole list, the count of the next block would have taken \<open>wordCount\<close> over the budget;
  with budget 0, or when the count of the first block is over the budget, the result is
  empty; and the result is the trimmed concatenation of the appended blocks.
\<close>

lemma appended_blocks_in_code_count:
  "(case contextLoop budget sel page cache of (context, wordCount, paperCounter) \<Rightarrow>
      context = concat (blocksFrom 1 (includedPapers budget sel page cache)) \<and>
      wordCount = sum_list (map wordsOf (blocksFrom 1 (includedPapers budget sel page cache))) \<and>
      wordCount \<le> budget \<and>
      includedPapers budget sel page cache =
        take (paperCounter - 1) (sortBy compareFn (papersToConsider sel page cache)) \<and>
      (paperCounter - 1 < length (sortBy compareFn (papersToConsider sel page cache)) \<longrightarrow>
         budget < wordCount + wordsOf (paperInfo paperCounter
                    (sortBy compareFn (papersToConsider sel page cache) ! (paperCounter - 1))))) \<and>
   (budget = 0 \<longrightarrow> getContextFromSelectedPapers budget sel page cache = []) \<and>
   (\<forall>p ps. sortBy compareFn (papersToConsider sel page cache) = p # ps \<and>
            budget < wordsOf (paperInfo 1 p) \<longrightarrow>
      getContextFromSelectedPapers budget sel page cache = []) \<and>
   sum_list (map properWords (blocksFrom 1 (includedPapers budget sel page cache))) +
     length (includedPapers budget sel page cache) \<le> budget \<and>
   getContextFromSelectedPapers budget sel page cache =
     trim (concat (blocksFrom 1 (includedPapers budget sel page cache)))"
proof -
  let ?cands = "sortBy compareFn (papersToConsider sel page cache)"
  have proper: "sum_list (map properWords (blocksFrom 1 (includedPapers budget sel page cache))) +
     length (includedPapers budget sel page cache) \<le> budget"
  proof (rule contextLoop_cases [of budget sel page cache])
    fix ctx wc n
    assume "wc = sum_list (map wordsOf (blocksFrom 1 (includedPapers budget sel page cache)))"
      and "wc \<le> budget"
    then show ?thesis by (simp add: wordsOf_blocks)
  qed
  have returned: "getContextFromSelectedPapers budget sel page cache =
     trim (concat (blocksFrom 1 (includedPapers budget sel page cache)))"
  proof (rule contextLoop_cases [of budget sel page cache])
    fix ctx wc n
    assume "contextLoop budget sel page cache = (ctx, wc, n)"
      and "ctx = concat (blocksFrom 1 (includedPapers budget sel page cache))"
    then show ?thesis by (simp add: getContextFromSelectedPapers_def)
  qed
  have first: "case contextLoop budget sel page cache of (context, wordCount, paperCounter) \<Rightarrow>
      context = concat (blocksFrom 1 (includedPapers budget sel page cache)) \<and>
      wordCount = sum_list (map wordsOf (blocksFrom 1 (includedPapers budget sel page cache))) \<and>
      wordCount \<le> budget \<and>
      includedPapers budget sel page cache = take (paperCounter - 1) ?cands \<and>
      (paperCounter - 1 < length ?cands \<longrightarrow>
         budget < wordCount + wordsOf (paperInfo paperCounter (?cands ! (paperCounter - 1))))"
  proof (rule contextLoop_cases [of budget sel page cache])
    fix ctx wc n
    assume cl: "contextLoop budget sel page cache = (ctx, wc, n)"
      and rest: "includedPapers budget sel page cache = take (n - 1) ?cands"
        "ctx = concat (blocksFrom 1 (includedPapers budget sel page cache))"
        "wc = sum_list (map wordsOf (blocksFrom 1 (includedPapers budget sel page cache)))"
        "wc \<le> budget"
        "n - 1 < length ?cands \<longrightarrow>
           budget < wc + wordsOf (paperInfo n (?cands ! (n - 1)))"
    show ?thesis
      unfolding cl prod.case using rest by blast
  qed
  have big: "getContextFromSelectedPapers budget sel page cache = []"
    if "?cands = p # ps" "budget < wordsOf (paperInfo 1 p)" for p ps
    using that by (simp add: getContextFromSelectedPapers_def contextLoop_def trim_Nil Let_def)
  have zero: "getContextFromSelectedPapers budget sel page cache = []" if "budget = 0"
  proof (cases ?cands)
    case Nil
    then show ?thesis
      by (simp add: getContextFromSelectedPapers_def contextLoop_def trim_Nil)
  next
    case (Cons p ps)
    then show ?thesis
      using that wordsOf_pos [of "paperInfo 1 p"] big [of p ps] by simp
  qed
  show ?thesis
    using first zero big proper returned by blast
qed

text \<open>
  C2: the code departs from the claim by one word for each block. Appending should stop at
  the first block whose words would take the total over the budget; the loop stops as soon
  as the words and one more for each block would. The block of P2 holds 13 words: at
  budget 13 it fits, yet the loop appends nothing and the result is empty (at budget 14 it
  is appended). The blocks of P2 and P1 hold 13 and 16 words, 29 together: at budget 30
  both fit, yet only the block of P2 is appended.
\<close>

theorem exact_fit_block_is_refused:
  "properWords (paperInfo 1 paperP2) = 13 \<and>
   sortBy compareFn (papersToConsider [''P2''] [] cacheEx) = [paperP2] \<and>
   contextLoop 13 [''P2''] [] cacheEx = ([], 0, 1) \<and>
   getContextFromSelectedPapers 13 [''P2''] [] cacheEx = [] \<and>
   includedPapers 14 [''P2''] [] cacheEx = [paperP2] \<and>
   properWords (paperInfo 2 paperP1) = 16 \<and>
   sortBy compareFn (papersToConsider [''P1'', ''P2''] [] cacheEx) = [paperP2, paperP1] \<and>
   includedPapers 30 [''P1'', ''P2''] [] cacheEx = [paperP2]"
proof -
  have w2: "properWords (paperInfo 1 paperP2) = 13"
    by (simp add: properWords_def render_defs paperP2_def)
  have w1: "properWords (paperInfo 2 paperP1) = 16"
    by (simp add: properWords_def render_defs paperP1_def)
  have s2: "sortBy compareFn (papersToConsider [''P2''] [] cacheEx) = [paperP2]"
    by (simp add: loop_defs example_defs)
  have s12: "sortBy compareFn (papersToConsider [''P1'', ''P2''] [] cacheEx) = [paperP2, paperP1]"
    by (simp add: loop_defs example_defs)
  note refused = exact_fit_refused [OF s2 w2]
  have v2: "properWords (paperInfo (Suc 0) paperP2) = 13"
    using w2 by simp
  have v1: "properWords (paperInfo (Suc (Suc 0)) paperP1) = 16"
    using w1 by (simp add: numeral_2_eq_2)
  have l14: "contextLoop 14 [''P2''] [] cacheEx = (paperInfo 1 paperP2, 14, 2)"
    unfolding contextLoop_def s2 by (simp add: Let_def wordsOf_paperInfo v2)
  have i14: "includedPapers 14 [''P2''] [] cacheEx = [paperP2]"
    unfolding includedPapers_def l14 s2 by simp
  have l30: "contextLoop 30 [''P1'', ''P2''] [] cacheEx = (paperInfo 1 paperP2, 14, 2)"
    unfolding contextLoop_def s12 by (simp add: Let_def wordsOf_paperInfo v2 v1)
  have i30: "includedPapers 30 [''P1'', ''P2''] [] cacheEx = [paperP2]"
    unfolding includedPapers_def l30 s12 by simp
  show ?thesis
    using w2 w1 s2 s12 refused i14 i30 by simp
qed

section \<open>Properties of section generation\<close>

lemma generation_messages_distinct:
  "distinct [''Please search for a topic first.'', ''No papers available to provide context.'',
     ''API key for '' @ p @ '' is not set.'', ''Model for '' @ q @ '' is not selected.'']"
  by simp

lemma dispatchGeneration_one_request:
  "apiKey \<noteq> [] \<Longrightarrow>
   length (snd (snd (dispatchGeneration answers provider apiKey prompt modelToUse m))) = 1"
  by (auto simp: dispatchGeneration_def generateTextWithGemini_def generateTextWithOpenRouter_def
      getAi_def split: option.splits sum.splits prod.splits)

lemma handleGenerateSection_attempt:
  assumes "researchTopic st \<noteq> []"
    and "getContextFromSelectedPapers (MAX_CONTEXT_LENGTH_WORDS k) (selectedPaperIds st) (papers st)
        (cachedPapers st) \<noteq> []"
    and "providerKey (generationProvider st) (apiKeys st) \<noteq> []"
    and "selectedModel (generationProvider st) st \<noteq> []"
  shows "handleGenerateSection k answers sec st =
    (finishAttempt sec (fst (attemptDispatch k answers sec st))
       ((beginAttempt sec st)\<lparr>geminiModule := fst (snd (attemptDispatch k answers sec st))\<rparr>),
     [], snd (snd (attemptDispatch k answers sec st)))"
  using assms by (simp add: handleGenerateSection_def attemptDispatch_def Let_def case_prod_unfold)

text \<open>
  C6: the checks are made in the order topic, context, API key of the configured provider,
  model of the configured provider. The first that fails shows its own message (the four
  messages are pairwise different), leaves the state as it was and sends no request; when
  all four pass, nothing is shown and one request is sent.
\<close>

theorem generate_validates_in_order:
  "(researchTopic st = [] \<longrightarrow>
      handleGenerateSection k answers sec st = (st, [''Please search for a topic first.''], [])) \<and>
   (researchTopic st \<noteq> [] \<and>
    getContextFromSelectedPapers (MAX_CONTEXT_LENGTH_WORDS k) (selectedPaperIds st) (papers st)
      (cachedPapers st) = [] \<longrightarrow>
      handleGenerateSection k answers sec st =
        (st, [''No papers available to provide context.''], [])) \<and>
   (researchTopic st \<noteq> [] \<and>
    getContextFromSelectedPapers (MAX_CONTEXT_LENGTH_WORDS k) (selectedPaperIds st) (papers st)
      (cachedPapers st) \<noteq> [] \<and>
    providerKey (generationProvider st) (apiKeys st) = [] \<longrightarrow>
      handleGenerateSection k answers sec st =
        (st, [''API key for '' @ providerText k (generationProvider st) @ '' is not set.''], [])) \<and>
   (researchTopic st \<noteq> [] \<and>
    getContextFromSelectedPapers (MAX_CONTEXT_LENGTH_WORDS k) (selectedPaperIds st) (papers st)
      (cachedPapers st) \<noteq> [] \<and>
    providerKey (generationProvider st) (apiKeys st) \<noteq> [] \<and>
    selectedModel (generationProvider st) st = [] \<longrightarrow>
      handleGenerateSection k answers sec st =
        (st, [''Model for '' @ providerText k (generationProvider st) @ '' is not selected.''], [])) \<and>
   (researchTopic st \<noteq> [] \<and>
    getContextFromSelectedPapers (MAX_CONTEXT_LENGTH_WORDS k) (selectedPaperIds st) (papers st)
      (cachedPapers st) \<noteq> [] \<and>
    providerKey (generationProvider st) (apiKeys st) \<noteq> [] \<and>
    selectedModel (generationProvider st) st \<noteq> [] \<longrightarrow>
      fst (snd (handleGenerateSection k answers sec st)) = [] \<and>
      length (snd (snd (handleGenerateSection k answers sec st))) = 1) \<and>
   distinct [''Please search for a topic first.'', ''No papers available to provide context.'',
     ''API key for '' @ providerText k (generationProvider st) @ '' is not set.'',
     ''Model for '' @ providerText k (generationProvider st) @ '' is not selected.'']"
proof -
  have ok: "fst (snd (handleGenerateSection k answers sec st)) = [] \<and>
      length (snd (snd (handleGenerateSection k answers sec st))) = 1"
    if "researchTopic st \<noteq> []"
      "getContextFromSelectedPapers (MAX_CONTEXT_LENGTH_WORDS k) (selectedPaperIds st) (papers st)
        (cachedPapers st) \<noteq> []"
      "providerKey (generationProvider st) (apiKeys st) \<noteq> []"
      "selectedModel (generationProvider st) st \<noteq> []"
    unfolding handleGenerateSection_attempt [OF that]
    using dispatchGeneration_one_request [OF that(3)] by (simp add: attemptDispatch_def)
  show ?thesis
    using ok generation_messages_distinct
    by (simp add: handleGenerateSection_def Let_def)
qed


lemma ex_context_nonempty:
  "getContextFromSelectedPapers 100 [''P1'', ''P2''] page cacheEx \<noteq> []"
  unfolding getContextFromSelectedPapers_def ex_loop_100
  by (simp add: example_defs render_defs)

lemma ex_context_empty:
  "getContextFromSelectedPapers 100 [''P9''] page cacheEx = []"
  by (simp add: getContextFromSelectedPapers_def loop_defs example_defs trim_def)

lemmas appEx_fields = appEx_def constantsEx_def providerKey_def selectedModel_def

theorem generate_validates_in_order_witness:
  "handleGenerateSection constantsEx answersEx Introduction (appEx\<lparr>researchTopic := []\<rparr>) =
     (appEx\<lparr>researchTopic := []\<rparr>, [''Please search for a topic first.''], []) \<and>
   handleGenerateSection constantsEx answersEx Introduction (appEx\<lparr>selectedPaperIds := [''P9'']\<rparr>) =
     (appEx\<lparr>selectedPaperIds := [''P9'']\<rparr>, [''No papers available to provide context.''], []) \<and>
   handleGenerateSection constantsEx answersEx Introduction
       (appEx\<lparr>apiKeys := (apiKeys appEx)\<lparr>gemini := []\<rparr>\<rparr>) =
     (appEx\<lparr>apiKeys := (apiKeys appEx)\<lparr>gemini := []\<rparr>\<rparr>, [''API key for Gemini is not set.''], []) \<and>
   handleGenerateSection constantsEx answersEx Introduction (appEx\<lparr>selectedGeminiModel := []\<rparr>) =
     (appEx\<lparr>selectedGeminiModel := []\<rparr>, [''Model for Gemini is not selected.''], []) \<and>
   fst (snd (handleGenerateSection constantsEx answersEx Introduction appEx)) = [] \<and>
   length (snd (snd (handleGenerateSection constantsEx answersEx Introduction appEx))) = 1"
proof -
  note ctx = ex_context_nonempty [of "[paperP3]"]
  have a: "handleGenerateSection constantsEx answersEx Introduction (appEx\<lparr>researchTopic := []\<rparr>) =
     (appEx\<lparr>researchTopic := []\<rparr>, [''Please search for a topic first.''], [])"
    using generate_validates_in_order [of "appEx\<lparr>researchTopic := []\<rparr>" constantsEx answersEx Introduction]
    by simp
  have b: "handleGenerateSection constantsEx answersEx Introduction (appEx\<lparr>selectedPaperIds := [''P9'']\<rparr>) =
     (appEx\<lparr>selectedPaperIds := [''P9'']\<rparr>, [''No papers available to provide context.''], [])"
    using generate_validates_in_order [of "appEx\<lparr>selectedPaperIds := [''P9'']\<rparr>" constantsEx answersEx Introduction]
      ex_context_empty [of "[paperP3]"]
    by (simp add: appEx_fields)
  have c: "handleGenerateSection constantsEx answersEx Introduction
       (appEx\<lparr>apiKeys := (apiKeys appEx)\<lparr>gemini := []\<rparr>\<rparr>) =
     (appEx\<lparr>apiKeys := (apiKeys appEx)\<lparr>gemini := []\<rparr>\<rparr>, [''API key for Gemini is not set.''], [])"
    using generate_validates_in_order [of "appEx\<lparr>apiKeys := (apiKeys appEx)\<lparr>gemini := []\<rparr>\<rparr>" constantsEx answersEx Introduction]
      ctx
    by (simp add: appEx_fields)
  have d: "handleGenerateSection constantsEx answersEx Introduction (appEx\<lparr>selectedGeminiModel := []\<rparr>) =
     (appEx\<lparr>selectedGeminiModel := []\<rparr>, [''Model for Gemini is not selected.''], [])"
    using generate_validates_in_order [of "appEx\<lparr>selectedGeminiModel := []\<rparr>" constantsEx answersEx Introduction]
      ctx
    by (simp add: appEx_fields)
  have e: "fst (snd (handleGenerateSection constantsEx answersEx Introduction appEx)) = [] \<and>
   length (snd (snd (handleGenerateSection constantsEx answersEx Introduction appEx))) = 1"
    using generate_validates_in_order [of appEx constantsEx answersEx Introduction] ctx
    by (simp add: appEx_fields)
  show ?thesis
    using a b c d e by blast
qed

lemma beginAttempt_slot:
  "slotContent sec (beginAttempt sec st) = []"
  "slotError sec (beginAttempt sec st) = None"
  "slotGrounding sec (beginAttempt sec st) = None"
  by (cases sec; simp add: beginAttempt_def slotContent_def slotError_def slotGrounding_def)+

lemma beginAttempt_other:
  "slotContent (otherSection sec) (beginAttempt sec st) = slotContent (otherSection sec) st"
  "slotError (otherSection sec) (beginAttempt sec st) = slotError (otherSection sec) st"
  "slotGrounding (otherSection sec) (beginAttempt sec st) = slotGrounding (otherSection sec) st"
  by (cases sec; simp add: beginAttempt_def slotContent_def slotError_def slotGrounding_def
      otherSection_def)+

lemma finishAttempt_failed:
  "slotError sec (finishAttempt sec (Inl message) st) = Some message"
  "slotContent sec (finishAttempt sec (Inl message) st) = slotContent sec st"
  "slotGrounding sec (finishAttempt sec (Inl message) st) = slotGrounding sec st"
  by (cases sec; simp add: finishAttempt_def slotContent_def slotError_def slotGrounding_def)+

lemma finishAttempt_other:
  "slotContent (otherSection sec) (finishAttempt sec outcome st) = slotContent (otherSection sec) st"
  "slotError (otherSection sec) (finishAttempt sec outcome st) = slotError (otherSection sec) st"
  "slotGrounding (otherSection sec) (finishAttempt sec outcome st) = slotGrounding (otherSection sec) st"
  by (cases sec; cases outcome;
      simp add: finishAttempt_def slotContent_def slotError_def slotGrounding_def otherSection_def)+

lemma slot_geminiModule_update:
  "slotContent sec (st\<lparr>geminiModule := m\<rparr>) = slotContent sec st"
  "slotError sec (st\<lparr>geminiModule := m\<rparr>) = slotError sec st"
  "slotGrounding sec (st\<lparr>geminiModule := m\<rparr>) = slotGrounding sec st"
  by (cases sec; simp add: slotContent_def slotError_def slotGrounding_def)+

lemma attemptDispatch_gemini_failed:
  "generationProvider st = GEMINI \<Longrightarrow> providerKey GEMINI (apiKeys st) \<noteq> [] \<Longrightarrow>
   geminiAnswer answers = Failed e \<Longrightarrow>
   fst (attemptDispatch k answers sec st) = Inl (''Gemini API error: '' @ orElse e ''Unknown error'')"
  by (simp add: attemptDispatch_def dispatchGeneration_def generateTextWithGemini_def getAi_def
      split: option.splits)

lemma attemptDispatch_openrouter_failed:
  "generationProvider st = OPENROUTER \<Longrightarrow> providerKey OPENROUTER (apiKeys st) \<noteq> [] \<Longrightarrow>
   openRouterAnswer answers = FetchThrew e \<Longrightarrow>
   fst (attemptDispatch k answers sec st) = Inl (openRouterError e)"
  by (simp add: attemptDispatch_def dispatchGeneration_def generateTextWithOpenRouter_def)

text \<open>
  C7: once the four checks have passed, the attempt starts from \<open>beginAttempt\<close>, which
  clears the slot's content, error and grounding whatever they held. When the provider's
  call fails, the slot's error is the error's message, and its content and grounding stay
  cleared. The other section's content, error and grounding are what they were, both after
  the start of the attempt and at its end.
\<close>

theorem attempt_clears_its_slot_and_keeps_the_other:
  assumes "researchTopic st \<noteq> []"
    and "getContextFromSelectedPapers (MAX_CONTEXT_LENGTH_WORDS k) (selectedPaperIds st) (papers st)
        (cachedPapers st) \<noteq> []"
    and "providerKey (generationProvider st) (apiKeys st) \<noteq> []"
    and "selectedModel (generationProvider st) st \<noteq> []"
  shows "fst (handleGenerateSection k answers sec st) =
      finishAttempt sec (fst (attemptDispatch k answers sec st))
        ((beginAttempt sec st)\<lparr>geminiModule := fst (snd (attemptDispatch k answers sec st))\<rparr>) \<and>
    slotContent sec (beginAttempt sec st) = [] \<and>
    slotError sec (beginAttempt sec st) = None \<and>
    slotGrounding sec (beginAttempt sec st) = None \<and>
    (\<forall>message. fst (attemptDispatch k answers sec st) = Inl message \<longrightarrow>
       slotError sec (fst (handleGenerateSection k answers sec st)) = Some message \<and>
       slotContent sec (fst (handleGenerateSection k answers sec st)) = [] \<and>
       slotGrounding sec (fst (handleGenerateSection k answers sec st)) = None) \<and>
    (\<forall>e. generationProvider st = GEMINI \<and> geminiAnswer answers = Failed e \<longrightarrow>
       slotError sec (fst (handleGenerateSection k answers sec st)) =
         Some (''Gemini API error: '' @ orElse e ''Unknown error'')) \<and>
    (\<forall>e. generationProvider st = OPENROUTER \<and> openRouterAnswer answers = FetchThrew e \<longrightarrow>
       slotError sec (fst (handleGenerateSection k answers sec st)) = Some (openRouterError e)) \<and>
    slotContent (otherSection sec) (beginAttempt sec st) = slotContent (otherSection sec) st \<and>
    slotError (otherSection sec) (beginAttempt sec st) = slotError (otherSection sec) st \<and>
    slotGrounding (otherSection sec) (beginAttempt sec st) = slotGrounding (otherSection sec) st \<and>
    slotContent (otherSection sec) (fst (handleGenerateSection k answers sec st)) =
      slotContent (otherSection sec) st \<and>
    slotError (otherSection sec) (fst (handleGenerateSection k answers sec st)) =
      slotError (otherSection sec) st \<and>
    slotGrounding (otherSection sec) (fst (handleGenerateSection k answers sec st)) =
      slotGrounding (otherSection sec) st"
proof -
  let ?d = "attemptDispatch k answers sec st"
  have h: "fst (handleGenerateSection k answers sec st) =
      finishAttempt sec (fst ?d) ((beginAttempt sec st)\<lparr>geminiModule := fst (snd ?d)\<rparr>)"
    by (simp add: handleGenerateSection_attempt [OF assms])
  have failed: "slotError sec (fst (handleGenerateSection k answers sec st)) = Some message \<and>
       slotContent sec (fst (handleGenerateSection k answers sec st)) = [] \<and>
       slotGrounding sec (fst (handleGenerateSection k answers sec st)) = None"
    if "fst ?d = Inl message" for message
    unfolding h that
    by (simp add: finishAttempt_failed slot_geminiModule_update beginAttempt_slot)
  have g: "slotError sec (fst (handleGenerateSection k answers sec st)) =
         Some (''Gemini API error: '' @ orElse e ''Unknown error'')"
    if "generationProvider st = GEMINI" "geminiAnswer answers = Failed e" for e
    using failed [OF attemptDispatch_gemini_failed [OF that(1) _ that(2)]] assms(3) that(1)
    by simp
  have o: "slotError sec (fst (handleGenerateSection k answers sec st)) = Some (openRouterError e)"
    if "generationProvider st = OPENROUTER" "openRouterAnswer answers = FetchThrew e" for e
    using failed [OF attemptDispatch_openrouter_failed [OF that(1) _ that(2)]] assms(3) that(1)
    by simp
  have other:
    "slotContent (otherSection sec) (fst (handleGenerateSection k answers sec st)) =
      slotContent (otherSection sec) st"
    "slotError (otherSection sec) (fst (handleGenerateSection k answers sec st)) =
      slotError (otherSection sec) st"
    "slotGrounding (otherSection sec) (fst (handleGenerateSection k answers sec st)) =
      slotGrounding (otherSection sec) st"
    unfolding h
    by (simp_all add: finishAttempt_other slot_geminiModule_update beginAttempt_other)
  show ?thesis
    using h failed g o other beginAttempt_slot [of sec st] beginAttempt_other [of sec st]
    by blast
qed

theorem attempt_clears_its_slot_and_keeps_the_other_witness:
  "introContent (beginAttempt Introduction appEx) = [] \<and>
   introError (beginAttempt Introduction appEx) = None \<and>
   introGrounding (beginAttempt Introduction appEx) = None \<and>
   introError (fst (handleGenerateSection constantsEx answersEx Introduction appEx)) =
     Some ''Gemini API error: quota'' \<and>
   introContent (fst (handleGenerateSection constantsEx answersEx Introduction appEx)) = [] \<and>
   introGrounding (fst (handleGenerateSection constantsEx answersEx Introduction appEx)) = None \<and>
   relatedWorksContent (fst (handleGenerateSection constantsEx answersEx Introduction appEx)) =
     ''Old related'' \<and>
   relatedWorksError (fst (handleGenerateSection constantsEx answersEx Introduction appEx)) =
     Some ''older error'' \<and>
   relatedWorksGrounding (fst (handleGenerateSection constantsEx answersEx Introduction appEx)) =
     Some []"
proof -
  have pre: "researchTopic appEx \<noteq> []"
    "getContextFromSelectedPapers (MAX_CONTEXT_LENGTH_WORDS constantsEx) (selectedPaperIds appEx)
       (papers appEx) (cachedPapers appEx) \<noteq> []"
    "providerKey (generationProvider appEx) (apiKeys appEx) \<noteq> []"
    "selectedModel (generationProvider appEx) appEx \<noteq> []"
    using ex_context_nonempty [of "[paperP3]"] by (simp_all add: appEx_fields)
  have ans: "generationProvider appEx = GEMINI \<and> geminiAnswer answersEx = Failed (Some ''quota'')"
    by (simp add: appEx_def answersEx_def)
  have err: "fst (attemptDispatch constantsEx answersEx Introduction appEx) =
      Inl ''Gemini API error: quota''"
    using attemptDispatch_gemini_failed [of appEx answersEx "Some ''quota''" constantsEx Introduction]
    by (simp add: appEx_fields answersEx_def orElse_def)
  note t = attempt_clears_its_slot_and_keeps_the_other [OF pre, of answersEx Introduction]
  have "slotContent Introduction (beginAttempt Introduction appEx) = [] \<and>
    slotError Introduction (beginAttempt Introduction appEx) = None \<and>
    slotGrounding Introduction (beginAttempt Introduction appEx) = None \<and>
    slotError Introduction (fst (handleGenerateSection constantsEx answersEx Introduction appEx)) =
      Some ''Gemini API error: quota'' \<and>
    slotContent Introduction (fst (handleGenerateSection constantsEx answersEx Introduction appEx)) = [] \<and>
    slotGrounding Introduction (fst (handleGenerateSection constantsEx answersEx Introduction appEx)) = None \<and>
    slotContent (otherSection Introduction) (fst (handleGenerateSection constantsEx answersEx Introduction appEx)) =
      slotContent (otherSection Introduction) appEx \<and>
    slotError (otherSection Introduction) (fst (handleGenerateSection constantsEx answersEx Introduction appEx)) =
      slotError (otherSection Introduction) appEx \<and>
    slotGrounding (otherSection Introduction) (fst (handleGenerateSection constantsEx answersEx Introduction appEx)) =
      slotGrounding (otherSection Introduction) appEx"
    using t err by blast
  then show ?thesis
    by (simp add: slotContent_def slotError_def slotGrounding_def otherSection_def appEx_def)
qed

section \<open>Properties of the chat handler\<close>

text \<open>
  C9 (as amended): when the provider's key is missing or no model is selected, the handler
  sends no request, sets the chat error to the message of the failed check, and leaves both
  providers' conversation histories and the Gemini session as they were. The transcript
  does change: it gains the user's message and an error message; apart from the transcript,
  the chat error and the loading flag, every state variable keeps its value.
\<close>

theorem send_validation_failure:
  assumes "providerKey provider (apiKeys st) = [] \<or> model = []"
  shows "handleSendMessage k answers t0 t1 messageText provider model st =
      (st\<lparr>chatMessages := chatMessages st @
            [\<lparr>msgId = showNat t0, sender = FromUser, msgText = messageText, timestamp = t0\<rparr>,
             aiMessage t1 (''Error: '' @ chatValidationError k provider st)],
          chatLoading := False,
          chatError := Some (chatValidationError k provider st)\<rparr>, []) \<and>
    snd (handleSendMessage k answers t0 t1 messageText provider model st) = [] \<and>
    chatError (fst (handleSendMessage k answers t0 t1 messageText provider model st)) =
      Some (chatValidationError k provider st) \<and>
    geminiChatHistory (fst (handleSendMessage k answers t0 t1 messageText provider model st)) =
      geminiChatHistory st \<and>
    openRouterChatHistory (fst (handleSendMessage k answers t0 t1 messageText provider model st)) =
      openRouterChatHistory st \<and>
    geminiModule (fst (handleSendMessage k answers t0 t1 messageText provider model st)) =
      geminiModule st"
  using assms by (auto simp: handleSendMessage_def chatValidationError_def Let_def)

theorem send_validation_failure_witness:
  "handleSendMessage constantsEx answersEx 5 6 ''hello'' OPENROUTER []  appEx =
      (appEx\<lparr>chatMessages :=
            [\<lparr>msgId = ''5'', sender = FromUser, msgText = ''hello'', timestamp = 5\<rparr>,
             \<lparr>msgId = ''7'', sender = FromAi,
              msgText = ''Error: Model for OpenRouter is not selected.'', timestamp = 6\<rparr>],
          chatLoading := False,
          chatError := Some ''Model for OpenRouter is not selected.''\<rparr>, [])"
proof -
  have h: "providerKey OPENROUTER (apiKeys appEx) = [] \<or> ([]::string) = []"
    by simp
  have m: "chatValidationError constantsEx OPENROUTER appEx = ''Model for OpenRouter is not selected.''"
    by (simp add: chatValidationError_def appEx_fields)
  have c: "chatMessages appEx = []"
    by (simp add: appEx_def)
  show ?thesis
    using send_validation_failure [OF h, of constantsEx answersEx 5 6 "''hello''"]
    unfolding m c by (simp add: aiMessage_def digitChar_values)
qed

text \<open>
  C9 as stated fails: with the Gemini key unset, the failed check leaves two more messages
  in the chat transcript, so the state after the handler is not the state before it.
\<close>

theorem send_validation_changes_transcript:
  "chatMessages (fst (handleSendMessage constantsEx answersEx 5 6 ''hello'' GEMINI ''model-a''
      (appEx\<lparr>apiKeys := (apiKeys appEx)\<lparr>gemini := []\<rparr>\<rparr>))) =
     [\<lparr>msgId = ''5'', sender = FromUser, msgText = ''hello'', timestamp = 5\<rparr>,
      \<lparr>msgId = ''7'', sender = FromAi,
       msgText = ''Error: API key for Gemini is not set.'', timestamp = 6\<rparr>] \<and>
   chatMessages (appEx\<lparr>apiKeys := (apiKeys appEx)\<lparr>gemini := []\<rparr>\<rparr>) = [] \<and>
   fst (handleSendMessage constantsEx answersEx 5 6 ''hello'' GEMINI ''model-a''
      (appEx\<lparr>apiKeys := (apiKeys appEx)\<lparr>gemini := []\<rparr>\<rparr>)) \<noteq>
     appEx\<lparr>apiKeys := (apiKeys appEx)\<lparr>gemini := []\<rparr>\<rparr>"
proof -
  have a: "chatMessages (fst (handleSendMessage constantsEx answersEx 5 6 ''hello'' GEMINI ''model-a''
      (appEx\<lparr>apiKeys := (apiKeys appEx)\<lparr>gemini := []\<rparr>\<rparr>))) =
     [\<lparr>msgId = ''5'', sender = FromUser, msgText = ''hello'', timestamp = 5\<rparr>,
      \<lparr>msgId = ''7'', sender = FromAi,
       msgText = ''Error: API key for Gemini is not set.'', timestamp = 6\<rparr>]"
    by (simp add: handleSendMessage_def Let_def appEx_fields aiMessage_def digitChar_values)
  have b: "chatMessages (appEx\<lparr>apiKeys := (apiKeys appEx)\<lparr>gemini := []\<rparr>\<rparr>) = []"
    by (simp add: appEx_def)
  from a b have "chatMessages (fst (handleSendMessage constantsEx answersEx 5 6 ''hello'' GEMINI ''model-a''
      (appEx\<lparr>apiKeys := (apiKeys appEx)\<lparr>gemini := []\<rparr>\<rparr>))) \<noteq>
      chatMessages (appEx\<lparr>apiKeys := (apiKeys appEx)\<lparr>gemini := []\<rparr>\<rparr>)"
    by simp
  then have c: "fst (handleSendMessage constantsEx answersEx 5 6 ''hello'' GEMINI ''model-a''
      (appEx\<lparr>apiKeys := (apiKeys appEx)\<lparr>gemini := []\<rparr>\<rparr>)) \<noteq>
     appEx\<lparr>apiKeys := (apiKeys appEx)\<lparr>gemini := []\<rparr>\<rparr>"
    by metis
  show ?thesis using a b c by blast
qed

section \<open>Properties of a new search\<close>

lemma recordFetch_Some:
  "recordFetch ps c i = Some p \<Longrightarrow> c i = Some p \<or> (p \<in> set ps \<and> paperId p = i)"
  unfolding recordFetch_def
proof (induction ps arbitrary: c)
  case Nil
  then show ?case by simp
next
  case (Cons a ps)
  from Cons.prems have "fold (\<lambda>p newCache. newCache(paperId p \<mapsto> p)) ps (c(paperId a \<mapsto> a)) i = Some p"
    by (simp only: fold.simps o_apply)
  from Cons.IH [OF this] show ?case
    by (auto split: if_splits)
qed

lemma searchReset_fields:
  "researchTopic (searchReset topic st) = topic"
  "selectedPaperIds (searchReset topic st) = []"
  "introContent (searchReset topic st) = []"
  "relatedWorksContent (searchReset topic st) = []"
  "introGrounding (searchReset topic st) = None"
  "relatedWorksGrounding (searchReset topic st) = None"
  "cachedPapers (searchReset topic st) = Map.empty"
  "apiKeys (searchReset topic st) = apiKeys st"
  by (simp_all add: searchReset_def)

lemma handleSearch_cache:
  "cachedPapers (fst (handleSearch k answer topic st)) i = Some p \<Longrightarrow>
   p \<in> returnedPapers st answer \<and> paperId p = i"
  by (cases answer)
     (auto simp: handleSearch_def fetchPapersForPage_def searchReset_def Let_def returnedPapers_def
       split: if_splits dest: recordFetch_Some)

lemma handleSearch_keeps_reset:
  "selectedPaperIds (fst (handleSearch k answer topic st)) = [] \<and>
   introContent (fst (handleSearch k answer topic st)) = [] \<and>
   relatedWorksContent (fst (handleSearch k answer topic st)) = [] \<and>
   introGrounding (fst (handleSearch k answer topic st)) = None \<and>
   relatedWorksGrounding (fst (handleSearch k answer topic st)) = None"
  by (cases answer)
     (simp_all add: handleSearch_def fetchPapersForPage_def searchReset_def Let_def)

lemma set_map_filter_subset:
  "(\<And>i p. cache i = Some p \<Longrightarrow> p \<in> S) \<Longrightarrow> set (List.map_filter cache ids) \<subseteq> S"
  by (auto simp: set_map_filter)

lemma papersToConsider_from_cache:
  "(\<And>i p. cache i = Some p \<Longrightarrow> p \<in> S) \<Longrightarrow> set (papersToConsider sel page cache) \<subseteq> S"
  by (cases "sel = []")
     (auto simp: papersToConsider_selected papersToConsider_page set_map_filter)

lemma handleSearch_requests:
  "snd (handleSearch k answer topic st) =
     (if semanticScholar (apiKeys st) = [] then []
      else [SemanticScholarSearch topic (semanticScholar (apiKeys st)) (PAPERS_PER_PAGE k) 0])"
  by (simp add: handleSearch_def fetchPapersForPage_def searchReset_def Let_def)

lemma handleSearch_old_cache:
  "cachedPapers (fst (handleSearch k answer topic (st\<lparr>cachedPapers := c\<rparr>))) =
   cachedPapers (fst (handleSearch k answer topic st))"
  by (cases answer)
     (simp_all add: handleSearch_def fetchPapersForPage_def searchReset_def Let_def)

lemma set_sortBy: "set (sortBy cmp xs) = set xs"
  using mset_sortBy [of cmp xs] by (metis set_mset_mset)

lemma includedPapers_subset:
  "set (includedPapers budget sel page cache) \<subseteq> set (papersToConsider sel page cache)"
proof (rule contextLoop_cases [of budget sel page cache])
  fix ctx wc n
  assume "includedPapers budget sel page cache =
    take (n - 1) (sortBy compareFn (papersToConsider sel page cache))"
  then show ?thesis
    using set_take_subset [of "n - 1" "sortBy compareFn (papersToConsider sel page cache)"]
    by (simp add: set_sortBy)
qed


lemma papersToConsider_empty_cache: "papersToConsider sel page Map.empty = []"
  using papersToConsider_from_cache [of Map.empty "{}" sel page] by simp

lemma context_empty_cache: "getContextFromSelectedPapers budget sel page Map.empty = []"
  by (simp add: getContextFromSelectedPapers_def contextLoop_def papersToConsider_empty_cache
      sortBy_def trim_Nil)

text \<open>
  C10: \<open>handleSearch\<close> is the fetch of page 1 applied to the state after the reset, in
  which the selection is empty, both sections' content and grounding are cleared and the
  cache is empty, so that no context can be assembled from it. After the search the
  selection and the sections are still cleared, and whatever is selected afterwards, the
  candidates and the included papers of a generation are among the papers this search
  returned; the cache does not depend on what was cached before.
\<close>

theorem new_search_resets_before_fetch:
  "selectedPaperIds (searchReset topic st) = [] \<and>
   introContent (searchReset topic st) = [] \<and>
   relatedWorksContent (searchReset topic st) = [] \<and>
   introGrounding (searchReset topic st) = None \<and>
   relatedWorksGrounding (searchReset topic st) = None \<and>
   cachedPapers (searchReset topic st) = Map.empty \<and>
   handleSearch k answer topic st = fetchPapersForPage k answer topic 1 (searchReset topic st) \<and>
   snd (handleSearch k answer topic st) =
     (if semanticScholar (apiKeys st) = [] then []
      else [SemanticScholarSearch topic (semanticScholar (apiKeys st)) (PAPERS_PER_PAGE k) 0]) \<and>
   getContextFromSelectedPapers budget sel page (cachedPapers (searchReset topic st)) = [] \<and>
   selectedPaperIds (fst (handleSearch k answer topic st)) = [] \<and>
   introContent (fst (handleSearch k answer topic st)) = [] \<and>
   relatedWorksContent (fst (handleSearch k answer topic st)) = [] \<and>
   introGrounding (fst (handleSearch k answer topic st)) = None \<and>
   relatedWorksGrounding (fst (handleSearch k answer topic st)) = None \<and>
   set (papersToConsider sel (papers (fst (handleSearch k answer topic st)))
          (cachedPapers (fst (handleSearch k answer topic st)))) \<subseteq> returnedPapers st answer \<and>
   set (includedPapers budget sel (papers (fst (handleSearch k answer topic st)))
          (cachedPapers (fst (handleSearch k answer topic st)))) \<subseteq> returnedPapers st answer \<and>
   cachedPapers (fst (handleSearch k answer topic (st\<lparr>cachedPapers := c\<rparr>))) =
     cachedPapers (fst (handleSearch k answer topic st))"
proof -
  let ?final = "fst (handleSearch k answer topic st)"
  have cands: "set (papersToConsider sel (papers ?final) (cachedPapers ?final)) \<subseteq> returnedPapers st answer"
    by (rule papersToConsider_from_cache) (auto dest: handleSearch_cache)
  have inc: "set (includedPapers budget sel (papers ?final) (cachedPapers ?final)) \<subseteq> returnedPapers st answer"
    using includedPapers_subset [of budget sel "papers ?final" "cachedPapers ?final"] cands
    by (rule subset_trans)
  have ctx: "getContextFromSelectedPapers budget sel page (cachedPapers (searchReset topic st)) = []"
    by (simp add: searchReset_fields context_empty_cache)
  have def: "handleSearch k answer topic st = fetchPapersForPage k answer topic 1 (searchReset topic st)"
    by (simp add: handleSearch_def)
  show ?thesis
    using cands inc ctx def handleSearch_keeps_reset [of k answer topic st]
      handleSearch_requests [of k answer topic st] handleSearch_old_cache [of k answer topic c st]
      searchReset_fields [of topic st]
    by blast
qed

theorem new_search_resets_before_fetch_witness:
  "selectedPaperIds (fst (handleSearch constantsEx (SearchReturned [paperP3] 1) ''trees'' appEx)) = [] \<and>
   introContent (fst (handleSearch constantsEx (SearchReturned [paperP3] 1) ''trees'' appEx)) = [] \<and>
   snd (handleSearch constantsEx (SearchReturned [paperP3] 1) ''trees'' appEx) =
     [SemanticScholarSearch ''trees'' ''s2-key'' 10 0] \<and>
   set (papersToConsider [''P1'', ''P2'', ''P3'']
          (papers (fst (handleSearch constantsEx (SearchReturned [paperP3] 1) ''trees'' appEx)))
          (cachedPapers (fst (handleSearch constantsEx (SearchReturned [paperP3] 1) ''trees'' appEx))))
     \<subseteq> {paperP3}"
proof -
  have r: "returnedPapers appEx (SearchReturned [paperP3] 1) = {paperP3}"
    by (simp add: returnedPapers_def appEx_def)
  have q: "(if semanticScholar (apiKeys appEx) = [] then []
      else [SemanticScholarSearch ''trees'' (semanticScholar (apiKeys appEx))
              (PAPERS_PER_PAGE constantsEx) 0]) = [SemanticScholarSearch ''trees'' ''s2-key'' 10 0]"
    by (simp add: appEx_def constantsEx_def)
  show ?thesis
    using new_search_resets_before_fetch [of "''trees''" appEx constantsEx "SearchReturned [paperP3] 1"
        100 "[''P1'', ''P2'', ''P3'']" "[]" cacheEx]
    unfolding r q by blast
qed

section \<open>Properties of the chat services\<close>

text \<open>
  C5 (as amended): a turn that succeeds returns the history it was given followed by the
  user's turn and the assistant's turn, in that order. For Gemini that is the whole of it.
  For OpenRouter the returned history starts with \<open>systemTurn\<close>: nothing when no system
  instruction is given, when it is empty, or when the history already has a system turn;
  one system turn, put in front of the history, otherwise.
\<close>

theorem successful_turn_extends_history:
  "(apiKey \<noteq> [] \<and> answer = Replied t \<longrightarrow>
      fst (startOrContinueChatWithGemini answer apiKey userMessage history model systemInstruction m) =
        Inr (t, history @ [userContent userMessage, modelContent t])) \<and>
   (fst (startOrContinueChatWithGemini answer apiKey userMessage history model systemInstruction m) =
        Inr (t, updatedHistory) \<longrightarrow>
      answer = Replied t \<and>
      updatedHistory = history @ [userContent userMessage, modelContent t]) \<and>
   (apiKey \<noteq> [] \<and> fetchAnswer = Choice t \<longrightarrow>
      fst (chatWithOpenRouter fetchAnswer apiKey userMessage currentHistory model systemInstruction) =
        Inr (t, systemTurn systemInstruction currentHistory @ currentHistory @
                [\<lparr>orRole = User, content = userMessage\<rparr>, \<lparr>orRole = Assistant, content = t\<rparr>])) \<and>
   (fst (chatWithOpenRouter fetchAnswer apiKey userMessage currentHistory model systemInstruction) =
        Inr (t, finalHistory) \<longrightarrow>
      fetchAnswer = Choice t \<and>
      finalHistory = systemTurn systemInstruction currentHistory @ currentHistory @
        [\<lparr>orRole = User, content = userMessage\<rparr>, \<lparr>orRole = Assistant, content = t\<rparr>]) \<and>
   (systemInstruction = None \<or> systemInstruction = Some [] \<or>
    (\<exists>x \<in> set currentHistory. orRole x = System) \<longrightarrow>
      systemTurn systemInstruction currentHistory = []) \<and>
   (systemInstruction = Some s \<and> s \<noteq> [] \<and> (\<forall>x \<in> set currentHistory. orRole x \<noteq> System) \<longrightarrow>
      systemTurn systemInstruction currentHistory = [\<lparr>orRole = System, content = s\<rparr>])"
proof -
  have g1: "fst (startOrContinueChatWithGemini answer apiKey userMessage history model systemInstruction m) =
        Inr (t, history @ [userContent userMessage, modelContent t])"
    if "apiKey \<noteq> []" "answer = Replied t"
    using that
    by (auto simp: startOrContinueChatWithGemini_def getOrCreateChat_def getAi_def
        split: option.splits sum.splits prod.splits)
  have g2: "answer = Replied t \<and> updatedHistory = history @ [userContent userMessage, modelContent t]"
    if "fst (startOrContinueChatWithGemini answer apiKey userMessage history model systemInstruction m) =
        Inr (t, updatedHistory)"
    using that
    by (auto simp: startOrContinueChatWithGemini_def split: sum.splits prod.splits remote.splits)
  have o1: "fst (chatWithOpenRouter fetchAnswer apiKey userMessage currentHistory model systemInstruction) =
        Inr (t, systemTurn systemInstruction currentHistory @ currentHistory @
                [\<lparr>orRole = User, content = userMessage\<rparr>, \<lparr>orRole = Assistant, content = t\<rparr>])"
    if "apiKey \<noteq> []" "fetchAnswer = Choice t"
    using that by (simp add: chatWithOpenRouter_def generateTextWithOpenRouter_def Let_def)
  have o2: "fetchAnswer = Choice t \<and>
      finalHistory = systemTurn systemInstruction currentHistory @ currentHistory @
        [\<lparr>orRole = User, content = userMessage\<rparr>, \<lparr>orRole = Assistant, content = t\<rparr>]"
    if "fst (chatWithOpenRouter fetchAnswer apiKey userMessage currentHistory model systemInstruction) =
        Inr (t, finalHistory)"
    using that
    by (cases fetchAnswer; cases "apiKey = []")
       (auto simp: chatWithOpenRouter_def generateTextWithOpenRouter_def Let_def)
  have s1: "systemTurn systemInstruction currentHistory = []"
    if "systemInstruction = None \<or> systemInstruction = Some [] \<or>
        (\<exists>x \<in> set currentHistory. orRole x = System)"
    using that by (auto simp: systemTurn_def pushSystem_def find_None_iff)
  have s2: "systemTurn systemInstruction currentHistory = [\<lparr>orRole = System, content = s\<rparr>]"
    if "systemInstruction = Some s" "s \<noteq> []" "\<forall>x \<in> set currentHistory. orRole x \<noteq> System"
    using that by (auto simp: systemTurn_def pushSystem_def find_None_iff)
  show ?thesis
    using g1 g2 o1 o2 s1 s2 by blast
qed


theorem successful_turn_extends_history_witness:
  "fst (startOrContinueChatWithGemini (Replied ''a'') ''g-key'' ''q2'' [userContent ''q'', modelContent ''b'']
         ''model-a'' (Some ''sys'') moduleLoaded) =
     Inr (''a'', [userContent ''q'', modelContent ''b'', userContent ''q2'', modelContent ''a'']) \<and>
   fst (chatWithOpenRouter (Choice ''yo'') ''or-key'' ''hi''
          [\<lparr>orRole = System, content = ''sys''\<rparr>, \<lparr>orRole = User, content = ''q''\<rparr>,
           \<lparr>orRole = Assistant, content = ''b''\<rparr>] ''or-model'' (Some ''sys'')) =
     Inr (''yo'', [\<lparr>orRole = System, content = ''sys''\<rparr>, \<lparr>orRole = User, content = ''q''\<rparr>,
           \<lparr>orRole = Assistant, content = ''b''\<rparr>, \<lparr>orRole = User, content = ''hi''\<rparr>,
           \<lparr>orRole = Assistant, content = ''yo''\<rparr>]) \<and>
   fst (chatWithOpenRouter (Choice ''yo'') ''or-key'' ''hi'' [\<lparr>orRole = User, content = ''q''\<rparr>]
          ''or-model'' (Some ''sys'')) =
     Inr (''yo'', [\<lparr>orRole = System, content = ''sys''\<rparr>, \<lparr>orRole = User, content = ''q''\<rparr>,
           \<lparr>orRole = User, content = ''hi''\<rparr>, \<lparr>orRole = Assistant, content = ''yo''\<rparr>])"
proof -
  let ?h = "[\<lparr>orRole = System, content = ''sys''\<rparr>, \<lparr>orRole = User, content = ''q''\<rparr>,
           \<lparr>orRole = Assistant, content = ''b''\<rparr>]"
  have k: "''g-key'' \<noteq> []" "''or-key'' \<noteq> []" "''sys'' \<noteq> []"
    by simp_all
  have has: "\<exists>x \<in> set ?h. orRole x = System"
    by simp
  have hasnt: "\<forall>x \<in> set [\<lparr>orRole = User, content = ''q''\<rparr>]. orRole x \<noteq> System"
    by simp
  have a: "fst (startOrContinueChatWithGemini (Replied ''a'') ''g-key'' ''q2'' [userContent ''q'', modelContent ''b'']
         ''model-a'' (Some ''sys'') moduleLoaded) =
     Inr (''a'', [userContent ''q'', modelContent ''b''] @ [userContent ''q2'', modelContent ''a''])"
    using successful_turn_extends_history [of "''g-key''" "Replied ''a''" "''a''" "''q2''"
        "[userContent ''q'', modelContent ''b'']" "''model-a''" "Some ''sys''" moduleLoaded] k
    by blast
  have b1: "systemTurn (Some ''sys'') ?h = []"
    using successful_turn_extends_history [where systemInstruction = "Some ''sys''"
        and currentHistory = ?h] has
    by blast
  have b2: "fst (chatWithOpenRouter (Choice ''yo'') ''or-key'' ''hi'' ?h ''or-model'' (Some ''sys'')) =
     Inr (''yo'', systemTurn (Some ''sys'') ?h @ ?h @
       [\<lparr>orRole = User, content = ''hi''\<rparr>, \<lparr>orRole = Assistant, content = ''yo''\<rparr>])"
    using successful_turn_extends_history [where apiKey = "''or-key''" and fetchAnswer = "Choice ''yo''"
        and t = "''yo''" and userMessage = "''hi''" and currentHistory = ?h
        and model = "''or-model''" and systemInstruction = "Some ''sys''"] k
    by blast
  have c1: "systemTurn (Some ''sys'') [\<lparr>orRole = User, content = ''q''\<rparr>] =
      [\<lparr>orRole = System, content = ''sys''\<rparr>]"
    using successful_turn_extends_history [where systemInstruction = "Some ''sys''" and s = "''sys''"
        and currentHistory = "[\<lparr>orRole = User, content = ''q''\<rparr>]"] k hasnt
    by blast
  have c2: "fst (chatWithOpenRouter (Choice ''yo'') ''or-key'' ''hi'' [\<lparr>orRole = User, content = ''q''\<rparr>]
          ''or-model'' (Some ''sys'')) =
     Inr (''yo'', systemTurn (Some ''sys'') [\<lparr>orRole = User, content = ''q''\<rparr>] @
       [\<lparr>orRole = User, content = ''q''\<rparr>] @
       [\<lparr>orRole = User, content = ''hi''\<rparr>, \<lparr>orRole = Assistant, content = ''yo''\<rparr>])"
    using successful_turn_extends_history [where apiKey = "''or-key''" and fetchAnswer = "Choice ''yo''"
        and t = "''yo''" and userMessage = "''hi''"
        and currentHistory = "[\<lparr>orRole = User, content = ''q''\<rparr>]"
        and model = "''or-model''" and systemInstruction = "Some ''sys''"] k
    by blast
  show ?thesis
    using a b2 c2 unfolding b1 c1 by simp
qed

text \<open>
  C5 as stated fails for OpenRouter: the first turn of a conversation, with a system
  instruction, returns three turns, the system turn first, not the two that were appended.
\<close>

theorem first_openrouter_turn_inserts_system_turn:
  "fst (chatWithOpenRouter (Choice ''yo'') ''or-key'' ''hi'' [] ''or-model'' (Some ''sys'')) =
     Inr (''yo'', [\<lparr>orRole = System, content = ''sys''\<rparr>, \<lparr>orRole = User, content = ''hi''\<rparr>,
                  \<lparr>orRole = Assistant, content = ''yo''\<rparr>]) \<and>
   fst (chatWithOpenRouter (Choice ''yo'') ''or-key'' ''hi'' [] ''or-model'' (Some ''sys'')) \<noteq>
     Inr (''yo'', [] @ [\<lparr>orRole = User, content = ''hi''\<rparr>, \<lparr>orRole = Assistant, content = ''yo''\<rparr>])"
  by (simp add: chatWithOpenRouter_def generateTextWithOpenRouter_def systemTurn_def pushSystem_def
      Let_def)

section \<open>Properties of the Gemini session\<close>

lemma getAi_Inr:
  "getAi apiKey m = Inr (client, m1) \<Longrightarrow>
     geminiChatInstance m1 = geminiChatInstance m \<and> chatApiKey m1 = chatApiKey m \<and>
     chatSystemInstruction m1 = chatSystemInstruction m \<and> chatModelUsed m1 = chatModelUsed m \<and>
     chatsCreated m1 = chatsCreated m \<and> ai m1 = Some client \<and> activeApiKey m1 = Some apiKey"
  by (auto simp: getAi_def split: option.splits if_splits)

lemma getAi_nonempty: "apiKey \<noteq> [] \<Longrightarrow> \<exists>client m1. getAi apiKey m = Inr (client, m1)"
  by (auto simp: getAi_def split: option.splits)

lemma getAi_again: "getAi apiKey m = Inr (client, m1) \<Longrightarrow> getAi apiKey m1 = Inr (client, m1)"
  by (auto simp: getAi_def split: option.splits if_splits)

lemma getAi_inv: "moduleInv m \<Longrightarrow> getAi apiKey m = Inr (client, m1) \<Longrightarrow> moduleInv m1"
  by (auto simp: getAi_def moduleInv_def split: option.splits if_splits)

lemma getAi_inv_client:
  "moduleInv m \<Longrightarrow> getAi apiKey m = Inr (client, m1) \<Longrightarrow>
   apiKey \<noteq> [] \<and> ai m1 = Some \<lparr>clientApiKey = apiKey\<rparr>"
  by (auto simp: getAi_def moduleInv_def split: option.splits if_splits)

lemma getOrCreateChat_Inr:
  assumes "getOrCreateChat apiKey history model systemInstruction m = Inr (c, m1)"
  shows "geminiChatInstance m1 = Some c \<and> chatApiKey m1 = Some apiKey \<and>
     chatSystemInstruction m1 = ofParam systemInstruction \<and> chatModelUsed m1 = Some model \<and>
     ai m1 \<noteq> None \<and> activeApiKey m1 = Some apiKey"
proof -
  from assms obtain client m0 where g: "getAi apiKey m = Inr (client, m0)"
    by (auto simp: getOrCreateChat_def split: sum.splits)
  note f = getAi_Inr [OF g]
  show ?thesis
    using assms f unfolding getOrCreateChat_def g
    by (auto simp: needsNewChat_def split: option.splits if_splits)
qed

lemma getOrCreateChat_again:
  assumes "getOrCreateChat apiKey h1 model systemInstruction m = Inr (c, m1)"
  shows "getOrCreateChat apiKey h2 model systemInstruction m1 = Inr (c, m1)"
proof -
  note f = getOrCreateChat_Inr [OF assms]
  have g: "getAi apiKey m1 = Inr (the (ai m1), m1)"
    using f by (auto simp: getAi_def split: option.splits)
  show ?thesis
    unfolding getOrCreateChat_def g using f by (simp add: needsNewChat_def)
qed

lemma getOrCreateChat_reuse:
  assumes "geminiChatInstance m = Some c" "chatApiKey m = Some apiKey"
    "chatSystemInstruction m = ofParam systemInstruction" "chatModelUsed m = Some model"
    "getOrCreateChat apiKey history model systemInstruction m = Inr (c', m')"
  shows "c' = c \<and> geminiChatInstance m' = Some c \<and> chatsCreated m' = chatsCreated m"
proof -
  from assms(5) obtain client m0 where g: "getAi apiKey m = Inr (client, m0)"
    by (auto simp: getOrCreateChat_def split: sum.splits)
  note f = getAi_Inr [OF g]
  show ?thesis
    using assms f unfolding getOrCreateChat_def g
    by (auto simp: needsNewChat_def split: option.splits if_splits)
qed

lemma getOrCreateChat_fresh:
  assumes "geminiChatInstance m = None \<or> chatApiKey m \<noteq> Some apiKey \<or>
      chatSystemInstruction m \<noteq> ofParam systemInstruction \<or> chatModelUsed m \<noteq> Some model"
    "getOrCreateChat apiKey history model systemInstruction m = Inr (c', m')"
  shows "chatId c' = chatsCreated m \<and> chatModel c' = model \<and> chatHistory c' = history \<and>
     geminiChatInstance m' = Some c' \<and> chatsCreated m' = Suc (chatsCreated m)"
proof -
  from assms(2) obtain client m0 where g: "getAi apiKey m = Inr (client, m0)"
    by (auto simp: getOrCreateChat_def split: sum.splits)
  note f = getAi_Inr [OF g]
  show ?thesis
    using assms f unfolding getOrCreateChat_def g
    by (auto simp: needsNewChat_def chatsCreate_def split: option.splits if_splits)
qed

lemma getOrCreateChat_nonempty:
  "apiKey \<noteq> [] \<Longrightarrow> \<exists>c m1. getOrCreateChat apiKey history model systemInstruction m = Inr (c, m1)"
  using getAi_nonempty [of apiKey m]
  by (auto simp: getOrCreateChat_def split: option.splits)

lemma getOrCreateChat_inv:
  assumes "moduleInv m" "getOrCreateChat apiKey history model systemInstruction m = Inr (c, m1)"
  shows "moduleInv m1"
proof -
  from assms(2) obtain client m0 where g: "getAi apiKey m = Inr (client, m0)"
    by (auto simp: getOrCreateChat_def split: sum.splits)
  note i = getAi_inv [OF assms(1) g]
  show ?thesis
    using assms(2) i unfolding getOrCreateChat_def g
    by (auto simp: moduleInv_def chatsCreate_def split: option.splits if_splits)
qed

lemma getOrCreateChat_chatsFrom:
  assumes "chatsFrom n m" "getOrCreateChat apiKey history model systemInstruction m = Inr (c, m1)"
  shows "chatsFrom n m1"
proof -
  from assms(2) obtain client m0 where g: "getAi apiKey m = Inr (client, m0)"
    by (auto simp: getOrCreateChat_def split: sum.splits)
  note f = getAi_Inr [OF g]
  show ?thesis
    using assms f unfolding getOrCreateChat_def g
    by (auto simp: chatsFrom_def chatsCreate_def split: option.splits if_splits)
qed

lemma invalidate_inv: "moduleInv m \<Longrightarrow> moduleInv (invalidate m)"
  by (simp add: moduleInv_def invalidate_def split: option.splits)

lemma reset_inv: "moduleInv m \<Longrightarrow> moduleInv (resetGeminiChat m)"
  by (simp add: moduleInv_def resetGeminiChat_def split: option.splits)

lemma invalidate_chatsFrom: "chatsFrom n m \<Longrightarrow> chatsFrom n (invalidate m)"
  by (simp add: chatsFrom_def invalidate_def split: option.splits)

lemma reset_chatsFrom: "chatsFrom n m \<Longrightarrow> chatsFrom n (resetGeminiChat m)"
  by (simp add: chatsFrom_def resetGeminiChat_def split: option.splits)

lemma turn_module:
  "fst (snd (startOrContinueChatWithGemini answer apiKey userMessage history model systemInstruction m)) =
     (case getOrCreateChat apiKey history model systemInstruction m of
        Inl e \<Rightarrow> m
      | Inr (c, m1) \<Rightarrow>
          (case answer of
             Replied t \<Rightarrow> m1\<lparr>geminiChatInstance :=
                Some (c\<lparr>chatHistory := chatHistory c @ [userContent userMessage, modelContent t]\<rparr>)\<rparr>
           | Failed msg \<Rightarrow> if apiKeyNotValid msg then invalidate m1 else m1))"
  by (simp add: startOrContinueChatWithGemini_def split: sum.splits prod.splits remote.splits)

lemma applyOp_inv: "moduleInv m \<Longrightarrow> moduleInv (applyOp op m)"
proof (cases op)
  case (Turn answer apiKey userMessage history model systemInstruction)
  assume i: "moduleInv m"
  show ?thesis
  proof (cases "getOrCreateChat apiKey history model systemInstruction m")
    case (Inl e)
    then show ?thesis using i Turn by (simp add: turn_module)
  next
    case (Inr r)
    obtain c m1 where r: "r = (c, m1)" by (cases r)
    note i1 = getOrCreateChat_inv [OF i Inr [unfolded r]]
    note f = getOrCreateChat_Inr [OF Inr [unfolded r]]
    have "moduleInv (m1\<lparr>geminiChatInstance := Some (c\<lparr>chatHistory := hh\<rparr>)\<rparr>)" for hh
      using i1 f by (auto simp: moduleInv_def split: option.splits)
    then show ?thesis
      using Turn Inr r i1 invalidate_inv [OF i1]
      by (simp add: turn_module split: remote.splits)
  qed
next
  case (Generate answer apiKey prompt model systemInstruction)
  assume i: "moduleInv m"
  show ?thesis
    using i Generate getAi_inv [OF i, of apiKey]
    by (auto simp: generateTextWithGemini_def split: sum.splits prod.splits)
next
  case Reset
  assume "moduleInv m"
  then show ?thesis using Reset by (simp add: reset_inv)
qed

lemma applyOp_chatsFrom: "chatsFrom n m \<Longrightarrow> chatsFrom n (applyOp op m)"
proof (cases op)
  case (Turn answer apiKey userMessage history model systemInstruction)
  assume i: "chatsFrom n m"
  show ?thesis
  proof (cases "getOrCreateChat apiKey history model systemInstruction m")
    case (Inl e)
    then show ?thesis using i Turn by (simp add: turn_module)
  next
    case (Inr r)
    obtain c m1 where r: "r = (c, m1)" by (cases r)
    note i1 = getOrCreateChat_chatsFrom [OF i Inr [unfolded r]]
    note f = getOrCreateChat_Inr [OF Inr [unfolded r]]
    have "chatsFrom n (m1\<lparr>geminiChatInstance := Some (c\<lparr>chatHistory := hh\<rparr>)\<rparr>)" for hh
      using i1 f by (auto simp: chatsFrom_def split: option.splits)
    then show ?thesis
      using Turn Inr r i1 invalidate_chatsFrom [OF i1]
      by (simp add: turn_module split: remote.splits)
  qed
next
  case (Generate answer apiKey prompt model systemInstruction)
  assume i: "chatsFrom n m"
  have "chatsFrom n m1" if "getAi apiKey m = Inr (client, m1)" for client m1
    using getAi_Inr [OF that] i by (auto simp: chatsFrom_def split: option.splits)
  then show ?thesis
    using i Generate
    by (auto simp: generateTextWithGemini_def split: sum.splits prod.splits)
next
  case Reset
  assume "chatsFrom n m"
  then show ?thesis using Reset by (simp add: reset_chatsFrom)
qed

lemma runOps_inv: "moduleInv m \<Longrightarrow> moduleInv (runOps ops m)"
  unfolding runOps_def by (induction ops arbitrary: m) (auto intro: applyOp_inv)

lemma runOps_chatsFrom: "chatsFrom n m \<Longrightarrow> chatsFrom n (runOps ops m)"
  unfolding runOps_def by (induction ops arbitrary: m) (auto intro: applyOp_chatsFrom)

lemma moduleLoaded_inv: "moduleInv moduleLoaded"
  by (simp add: moduleInv_def moduleLoaded_def)

lemma reachable_inv: "moduleInv (runOps ops moduleLoaded)"
  by (rule runOps_inv [OF moduleLoaded_inv])


lemma turn_keeps_session:
  assumes "apiKey \<noteq> []" "\<not> (\<exists>msg. answer = Failed msg \<and> apiKeyNotValid msg)"
  shows "geminiChatInstance (fst (snd (startOrContinueChatWithGemini answer apiKey userMessage h1 model
             systemInstruction m))) \<noteq> None \<and>
    getOrCreateChat apiKey h2 model systemInstruction
        (fst (snd (startOrContinueChatWithGemini answer apiKey userMessage h1 model systemInstruction m))) =
      Inr (the (geminiChatInstance (fst (snd (startOrContinueChatWithGemini answer apiKey userMessage h1
              model systemInstruction m)))),
           fst (snd (startOrContinueChatWithGemini answer apiKey userMessage h1 model systemInstruction m)))"
proof -
  obtain c m1 where l: "getOrCreateChat apiKey h1 model systemInstruction m = Inr (c, m1)"
    using getOrCreateChat_nonempty [OF assms(1)] by blast
  note f = getOrCreateChat_Inr [OF l]
  note again = getOrCreateChat_again [OF l, of h2]
  show ?thesis
  proof (cases answer)
    case (Replied t)
    let ?c = "c\<lparr>chatHistory := chatHistory c @ [userContent userMessage, modelContent t]\<rparr>"
    let ?m = "m1\<lparr>geminiChatInstance := Some ?c\<rparr>"
    have after: "fst (snd (startOrContinueChatWithGemini answer apiKey userMessage h1 model
        systemInstruction m)) = ?m"
      by (simp add: turn_module l Replied)
    have g: "getAi apiKey ?m = Inr (the (ai ?m), ?m)"
      using f by (auto simp: getAi_def split: option.splits)
    have "getOrCreateChat apiKey h2 model systemInstruction ?m = Inr (?c, ?m)"
      unfolding getOrCreateChat_def g using f by (simp add: needsNewChat_def)
    then show ?thesis
      unfolding after by simp
  next
    case (Failed msg)
    with assms(2) have "\<not> apiKeyNotValid msg" by simp
    then have after: "fst (snd (startOrContinueChatWithGemini answer apiKey userMessage h1 model
        systemInstruction m)) = m1"
      by (simp add: turn_module l Failed)
    show ?thesis
      unfolding after using again f by simp
  qed
qed

lemma modelChange_lookup:
  assumes "getOrCreateChat apiKey (geminiChatHistory (handleSelectedGeminiModelChange model st)) model
      systemInstruction (geminiModule (handleSelectedGeminiModelChange model st)) = Inr (c', m')"
  shows "chatHistory c' = [] \<and> chatId c' = chatsCreated (geminiModule st) \<and> chatModel c' = model"
proof -
  have n: "geminiChatInstance (geminiModule (handleSelectedGeminiModelChange model st)) = None"
    by (simp add: handleSelectedGeminiModelChange_def resetGeminiChat_def)
  have h: "geminiChatHistory (handleSelectedGeminiModelChange model st) = []"
    by (simp add: handleSelectedGeminiModelChange_def)
  have k: "chatsCreated (geminiModule (handleSelectedGeminiModelChange model st)) =
      chatsCreated (geminiModule st)"
    by (simp add: handleSelectedGeminiModelChange_def resetGeminiChat_def)
  show ?thesis
    using getOrCreateChat_fresh [OF _ assms] n h k by simp
qed

text \<open>
  C3 (as amended). A lookup that follows a lookup with the same key, model and system
  instruction returns the same chat and leaves the module as it is; so does a lookup when
  the stored key, instruction and model equal the arguments; and so does the lookup of the
  next call after a turn that did not end in an invalid-key failure, the chat then holding
  the history the turn extended. When the module holds a chat and the key, the instruction
  or the model differs, the lookup creates a chat that is not the old one, stores it in
  its place, and seeds it with the history it was given. That history is empty when the
  model was changed through \<open>handleSelectedGeminiModelChange\<close>, which clears the stored
  history.
\<close>

theorem lookup_reuses_or_recreates:
  "(getOrCreateChat apiKey history model systemInstruction m = Inr (c, held) \<longrightarrow>
      getOrCreateChat apiKey later model systemInstruction held = Inr (c, held)) \<and>
   (geminiChatInstance m = Some c \<and> chatApiKey m = Some apiKey \<and>
    chatSystemInstruction m = ofParam systemInstruction \<and> chatModelUsed m = Some model \<and>
    getOrCreateChat apiKey later model systemInstruction m = Inr (c', m') \<longrightarrow>
      c' = c \<and> geminiChatInstance m' = Some c) \<and>
   (apiKey \<noteq> [] \<and> \<not> (\<exists>msg. answer = Failed msg \<and> apiKeyNotValid msg) \<longrightarrow>
      geminiChatInstance (fst (snd (startOrContinueChatWithGemini answer apiKey userMessage history model
             systemInstruction m))) \<noteq> None \<and>
      getOrCreateChat apiKey later model systemInstruction
        (fst (snd (startOrContinueChatWithGemini answer apiKey userMessage history model systemInstruction m))) =
      Inr (the (geminiChatInstance (fst (snd (startOrContinueChatWithGemini answer apiKey userMessage history
              model systemInstruction m)))),
           fst (snd (startOrContinueChatWithGemini answer apiKey userMessage history model systemInstruction m)))) \<and>
   (getOrCreateChat apiKey history model systemInstruction m = Inr (c, held) \<longrightarrow>
      geminiChatInstance (fst (snd (startOrContinueChatWithGemini (Replied t) apiKey userMessage history model
             systemInstruction m))) =
        Some (c\<lparr>chatHistory := chatHistory c @ [userContent userMessage, modelContent t]\<rparr>)) \<and>
   (m = runOps ops moduleLoaded \<and> geminiChatInstance m = Some c \<and>
    (chatApiKey m \<noteq> Some apiKey \<or> chatSystemInstruction m \<noteq> ofParam systemInstruction \<or>
     chatModelUsed m \<noteq> Some model) \<and>
    getOrCreateChat apiKey later model systemInstruction m = Inr (c', m') \<longrightarrow>
      chatId c' \<noteq> chatId c \<and> chatId c' = chatsCreated m \<and> chatModel c' = model \<and>
      chatHistory c' = later \<and> geminiChatInstance m' = Some c') \<and>
   (getOrCreateChat apiKey (geminiChatHistory (handleSelectedGeminiModelChange model st)) model
      systemInstruction (geminiModule (handleSelectedGeminiModelChange model st)) = Inr (c', m') \<longrightarrow>
      chatHistory c' = [] \<and> chatId c' = chatsCreated (geminiModule st) \<and> chatModel c' = model)"
proof -
  have a: "getOrCreateChat apiKey later model systemInstruction held = Inr (c, held)"
    if "getOrCreateChat apiKey history model systemInstruction m = Inr (c, held)"
    using that by (rule getOrCreateChat_again)
  have b: "c' = c \<and> geminiChatInstance m' = Some c"
    if "geminiChatInstance m = Some c" "chatApiKey m = Some apiKey"
      "chatSystemInstruction m = ofParam systemInstruction" "chatModelUsed m = Some model"
      "getOrCreateChat apiKey later model systemInstruction m = Inr (c', m')"
    using getOrCreateChat_reuse [OF that] by simp
  have d: "geminiChatInstance (fst (snd (startOrContinueChatWithGemini (Replied t) apiKey userMessage history model
             systemInstruction m))) =
        Some (c\<lparr>chatHistory := chatHistory c @ [userContent userMessage, modelContent t]\<rparr>)"
    if "getOrCreateChat apiKey history model systemInstruction m = Inr (c, held)"
    using that by (simp add: turn_module)
  have e: "chatId c' \<noteq> chatId c \<and> chatId c' = chatsCreated m \<and> chatModel c' = model \<and>
      chatHistory c' = later \<and> geminiChatInstance m' = Some c'"
    if "m = runOps ops moduleLoaded" "geminiChatInstance m = Some c"
      "chatApiKey m \<noteq> Some apiKey \<or> chatSystemInstruction m \<noteq> ofParam systemInstruction \<or>
       chatModelUsed m \<noteq> Some model"
      "getOrCreateChat apiKey later model systemInstruction m = Inr (c', m')"
  proof -
    have "moduleInv m" unfolding that(1) by (rule reachable_inv)
    with that(2) have lt: "chatId c < chatsCreated m" by (simp add: moduleInv_def)
    have "geminiChatInstance m = None \<or> chatApiKey m \<noteq> Some apiKey \<or>
      chatSystemInstruction m \<noteq> ofParam systemInstruction \<or> chatModelUsed m \<noteq> Some model"
      using that(3) by blast
    from getOrCreateChat_fresh [OF this that(4)] lt show ?thesis by simp
  qed
  show ?thesis
    using a b d e turn_keeps_session [of apiKey answer userMessage history model systemInstruction m later]
      modelChange_lookup [of apiKey model st systemInstruction c' m']
    by blast
qed


lemmas module_defs =
  startOrContinueChatWithGemini_def getOrCreateChat_def getAi_def needsNewChat_def chatsCreate_def
  ofParam_def truthy_def moduleLoaded_def

lemma moduleEx_reached:
  "runOps [Turn (Replied ''a'') ''g-key'' ''q'' [] ''model-a'' (Some ''sys'')] moduleLoaded = moduleEx"
  by (simp add: runOps_def module_defs moduleEx_def chatEx_def)

lemma moduleEx_lookup_same:
  "getOrCreateChat ''g-key'' h ''model-a'' (Some ''sys'') moduleEx = Inr (chatEx, moduleEx)"
  by (simp add: module_defs moduleEx_def)

lemma moduleEx_lookup_other:
  "getOrCreateChat ''g-key'' h ''model-b'' (Some ''sys'') moduleEx =
     Inr (\<lparr>chatId = 1, chatModel = ''model-b'', chatHistory = h, chatConfig = Some ''sys''\<rparr>,
          moduleEx\<lparr>geminiChatInstance :=
              Some \<lparr>chatId = 1, chatModel = ''model-b'', chatHistory = h, chatConfig = Some ''sys''\<rparr>,
            chatModelUsed := Some ''model-b'', chatsCreated := 2\<rparr>)"
  by (simp add: module_defs moduleEx_def)

theorem lookup_reuses_or_recreates_witness:
  "geminiChatInstance (moduleEx\<lparr>geminiChatInstance :=
              Some \<lparr>chatId = 1, chatModel = ''model-b'', chatHistory = [], chatConfig = Some ''sys''\<rparr>,
            chatModelUsed := Some ''model-b'', chatsCreated := 2\<rparr>) =
     Some \<lparr>chatId = 1, chatModel = ''model-b'', chatHistory = [], chatConfig = Some ''sys''\<rparr> \<and>
   (1::nat) \<noteq> chatId chatEx \<and>
   getOrCreateChat ''g-key'' [userContent ''q'', modelContent ''a''] ''model-a'' (Some ''sys'') moduleEx =
     Inr (chatEx, moduleEx) \<and>
   geminiChatInstance moduleEx = Some chatEx"
proof -
  let ?c1 = "\<lparr>chatId = 1, chatModel = ''model-b'', chatHistory = [], chatConfig = Some ''sys''\<rparr>"
  let ?m1 = "moduleEx\<lparr>geminiChatInstance := Some ?c1, chatModelUsed := Some ''model-b'',
    chatsCreated := 2\<rparr>"
  have pre: "moduleEx = runOps [Turn (Replied ''a'') ''g-key'' ''q'' [] ''model-a'' (Some ''sys'')] moduleLoaded"
    "geminiChatInstance moduleEx = Some chatEx" "chatApiKey moduleEx = Some ''g-key''"
    "chatSystemInstruction moduleEx = ofParam (Some ''sys'')"
    "chatModelUsed moduleEx = Some ''model-a''"
    "chatModelUsed moduleEx \<noteq> Some ''model-b''"
    by (simp_all add: moduleEx_reached) (simp_all add: moduleEx_def ofParam_def)
  have fresh: "chatId ?c1 \<noteq> chatId chatEx \<and> geminiChatInstance ?m1 = Some ?c1"
    using lookup_reuses_or_recreates [where m = moduleEx and c = chatEx and apiKey = "''g-key''"
        and systemInstruction = "Some ''sys''"
        and ops = "[Turn (Replied ''a'') ''g-key'' ''q'' [] ''model-a'' (Some ''sys'')]"
        and model = "''model-b''" and later = "[]" and c' = ?c1 and m' = ?m1] pre
      moduleEx_lookup_other [of "[]"]
    by blast
  have again: "getOrCreateChat ''g-key'' [userContent ''q'', modelContent ''a''] ''model-a''
      (Some ''sys'') moduleEx = Inr (chatEx, moduleEx)"
    using lookup_reuses_or_recreates [where m = moduleEx and c = chatEx and apiKey = "''g-key''"
        and systemInstruction = "Some ''sys''"
        and model = "''model-a''" and history = "[]" and held = moduleEx
        and later = "[userContent ''q'', modelContent ''a'']"]
      moduleEx_lookup_same [of "[]"]
    by blast
  show ?thesis
    using fresh again pre(2) by simp
qed

text \<open>
  C3 as stated fails: after a turn under \<open>model-a\<close>, a lookup with \<open>model-b\<close> and the
  history of that turn creates a fresh chat whose history is that history, not the empty one.
\<close>

theorem changed_model_keeps_given_history:
  "runOps [Turn (Replied ''a'') ''g-key'' ''q'' [] ''model-a'' (Some ''sys'')] moduleLoaded = moduleEx \<and>
   chatModelUsed moduleEx = Some ''model-a'' \<and>
   getOrCreateChat ''g-key'' [userContent ''q'', modelContent ''a''] ''model-b'' (Some ''sys'') moduleEx =
     Inr (\<lparr>chatId = 1, chatModel = ''model-b'',
            chatHistory = [userContent ''q'', modelContent ''a''], chatConfig = Some ''sys''\<rparr>,
          moduleEx\<lparr>geminiChatInstance :=
              Some \<lparr>chatId = 1, chatModel = ''model-b'',
                     chatHistory = [userContent ''q'', modelContent ''a''], chatConfig = Some ''sys''\<rparr>,
            chatModelUsed := Some ''model-b'', chatsCreated := 2\<rparr>) \<and>
   [userContent ''q'', modelContent ''a''] \<noteq> []"
  using moduleEx_reached moduleEx_lookup_other [of "[userContent ''q'', modelContent ''a'']"]
  by (simp add: moduleEx_def)

lemma lookup_after_invalidate_or_reset:
  assumes "moduleInv held" "ai held = Some \<lparr>clientApiKey = apiKey\<rparr>" "activeApiKey held = Some apiKey"
    "apiKey \<noteq> []"
  shows "getOrCreateChat k h mo sy (invalidate held) = getOrCreateChat k h mo sy (resetGeminiChat held)"
proof (cases "k = []")
  case True
  then show ?thesis
    using assms by (simp add: getOrCreateChat_def getAi_def invalidate_def resetGeminiChat_def)
next
  case False
  then show ?thesis
    using assms
    by (cases "k = apiKey")
       (simp_all add: getOrCreateChat_def getAi_def invalidate_def resetGeminiChat_def
          needsNewChat_def chatsCreate_def)
qed

text \<open>
  C4: take the module in any state it can reach and a turn, with a key that is not empty,
  whose request fails with a message containing \<open>API key not valid\<close>. The call returns the
  error after it has dropped the chat, the stored key and the stored model. From then on
  a lookup gives what it would give after \<open>resetGeminiChat\<close>; it creates a chat that is
  not the failed one, for any key that is not empty (a corrected one among them); and
  whatever calls follow, the module never holds the failed chat again.
\<close>

theorem auth_failure_invalidates_session:
  assumes "m = runOps before moduleLoaded"
    and "apiKey \<noteq> []"
    and "apiKeyNotValid msg"
  shows "\<exists>failed held.
    getOrCreateChat apiKey history model systemInstruction m = Inr (failed, held) \<and>
    startOrContinueChatWithGemini (Failed msg) apiKey userMessage history model systemInstruction m =
      (Inl (''Gemini Chat API error: '' @ orElse msg ''Unknown error''), invalidate held,
       [GeminiSendMessage (chatId failed) userMessage]) \<and>
    geminiChatInstance (invalidate held) = None \<and>
    chatApiKey (invalidate held) = None \<and> chatModelUsed (invalidate held) = None \<and>
    (\<forall>k h mo sy. getOrCreateChat k h mo sy (invalidate held) =
                  getOrCreateChat k h mo sy (resetGeminiChat held)) \<and>
    (\<forall>k h mo sy c' m'. getOrCreateChat k h mo sy (invalidate held) = Inr (c', m') \<longrightarrow>
        chatId c' \<noteq> chatId failed \<and> chatHistory c' = h \<and> chatModel c' = mo) \<and>
    (\<forall>k. k \<noteq> [] \<longrightarrow> (\<forall>h mo sy. \<exists>c' m'. getOrCreateChat k h mo sy (invalidate held) = Inr (c', m'))) \<and>
    (\<forall>later c'. geminiChatInstance (runOps later (invalidate held)) = Some c' \<longrightarrow>
        chatId c' \<noteq> chatId failed)"
proof -
  obtain failed held where
    l: "getOrCreateChat apiKey history model systemInstruction m = Inr (failed, held)"
    using getOrCreateChat_nonempty [OF assms(2)] by blast
  have inv: "moduleInv m"
    unfolding assms(1) by (rule reachable_inv)
  note hinv = getOrCreateChat_inv [OF inv l]
  note f = getOrCreateChat_Inr [OF l]
  from hinv f have lt: "chatId failed < chatsCreated held"
    by (simp add: moduleInv_def)
  from hinv f have client: "ai held = Some \<lparr>clientApiKey = apiKey\<rparr>"
    by (auto simp: moduleInv_def split: option.splits)
  have turn: "startOrContinueChatWithGemini (Failed msg) apiKey userMessage history model
      systemInstruction m =
      (Inl (''Gemini Chat API error: '' @ orElse msg ''Unknown error''), invalidate held,
       [GeminiSendMessage (chatId failed) userMessage])"
    using assms(3) by (simp add: startOrContinueChatWithGemini_def l)
  have gone: "geminiChatInstance (invalidate held) = None \<and>
    chatApiKey (invalidate held) = None \<and> chatModelUsed (invalidate held) = None"
    by (simp add: invalidate_def)
  have same: "getOrCreateChat k h mo sy (invalidate held) = getOrCreateChat k h mo sy (resetGeminiChat held)"
    for k h mo sy
    using lookup_after_invalidate_or_reset [OF hinv client _ assms(2)] f by simp
  have fresh: "chatId c' \<noteq> chatId failed \<and> chatHistory c' = h \<and> chatModel c' = mo"
    if "getOrCreateChat k h mo sy (invalidate held) = Inr (c', m')" for k h mo sy c' m'
  proof -
    have "geminiChatInstance (invalidate held) = None \<or> chatApiKey (invalidate held) \<noteq> Some k \<or>
      chatSystemInstruction (invalidate held) \<noteq> ofParam sy \<or>
      chatModelUsed (invalidate held) \<noteq> Some mo"
      by (simp add: invalidate_def)
    from getOrCreateChat_fresh [OF this that] lt show ?thesis
      by (simp add: invalidate_def)
  qed
  have total: "\<exists>c' m'. getOrCreateChat k h mo sy (invalidate held) = Inr (c', m')"
    if "k \<noteq> []" for k h mo sy
    using getOrCreateChat_nonempty [OF that] by blast
  have from0: "chatsFrom (chatsCreated held) (invalidate held)"
    by (simp add: chatsFrom_def invalidate_def)
  have never: "chatId c' \<noteq> chatId failed"
    if "geminiChatInstance (runOps later (invalidate held)) = Some c'" for later c'
    using runOps_chatsFrom [OF from0, of later] that lt by (simp add: chatsFrom_def)
  have "getOrCreateChat apiKey history model systemInstruction m = Inr (failed, held) \<and>
    startOrContinueChatWithGemini (Failed msg) apiKey userMessage history model systemInstruction m =
      (Inl (''Gemini Chat API error: '' @ orElse msg ''Unknown error''), invalidate held,
       [GeminiSendMessage (chatId failed) userMessage]) \<and>
    geminiChatInstance (invalidate held) = None \<and>
    chatApiKey (invalidate held) = None \<and> chatModelUsed (invalidate held) = None \<and>
    (\<forall>k h mo sy. getOrCreateChat k h mo sy (invalidate held) =
                  getOrCreateChat k h mo sy (resetGeminiChat held)) \<and>
    (\<forall>k h mo sy c' m'. getOrCreateChat k h mo sy (invalidate held) = Inr (c', m') \<longrightarrow>
        chatId c' \<noteq> chatId failed \<and> chatHistory c' = h \<and> chatModel c' = mo) \<and>
    (\<forall>k. k \<noteq> [] \<longrightarrow> (\<forall>h mo sy. \<exists>c' m'. getOrCreateChat k h mo sy (invalidate held) = Inr (c', m'))) \<and>
    (\<forall>later c'. geminiChatInstance (runOps later (invalidate held)) = Some c' \<longrightarrow>
        chatId c' \<noteq> chatId failed)"
  proof (intro conjI allI impI)
    show "getOrCreateChat apiKey history model systemInstruction m = Inr (failed, held)"
      by (rule l)
    show "startOrContinueChatWithGemini (Failed msg) apiKey userMessage history model systemInstruction m =
      (Inl (''Gemini Chat API error: '' @ orElse msg ''Unknown error''), invalidate held,
       [GeminiSendMessage (chatId failed) userMessage])"
      by (rule turn)
    show "geminiChatInstance (invalidate held) = None" "chatApiKey (invalidate held) = None"
      "chatModelUsed (invalidate held) = None"
      using gone by simp_all
    show "getOrCreateChat k h mo sy (invalidate held) = getOrCreateChat k h mo sy (resetGeminiChat held)"
      for k h mo sy
      by (rule same)
    show "chatId c' \<noteq> chatId failed" "chatHistory c' = h" "chatModel c' = mo"
      if "getOrCreateChat k h mo sy (invalidate held) = Inr (c', m')" for k h mo sy c' m'
      using fresh [OF that] by simp_all
    show "\<exists>c' m'. getOrCreateChat k h mo sy (invalidate held) = Inr (c', m')"
      if "k \<noteq> []" for k h mo sy
      by (rule total [OF that])
    show "chatId c' \<noteq> chatId failed"
      if "geminiChatInstance (runOps later (invalidate held)) = Some c'" for later c'
      by (rule never [OF that])
  qed
  then show ?thesis
    by - (rule exI, rule exI, assumption)
qed

theorem auth_failure_invalidates_session_witness:
  "startOrContinueChatWithGemini (Failed (Some ''API key not valid. Please pass a valid API key.''))
       ''g-key'' ''again'' [userContent ''q'', modelContent ''a''] ''model-a'' (Some ''sys'') moduleEx =
     (Inl ''Gemini Chat API error: API key not valid. Please pass a valid API key.'',
      invalidate moduleEx, [GeminiSendMessage 0 ''again'']) \<and>
   geminiChatInstance (invalidate moduleEx) = None \<and>
   getOrCreateChat ''new-key'' [] ''model-a'' (Some ''sys'') (invalidate moduleEx) =
     getOrCreateChat ''new-key'' [] ''model-a'' (Some ''sys'') (resetGeminiChat moduleEx)"
proof -
  let ?msg = "Some ''API key not valid. Please pass a valid API key.''"
  have pre: "moduleEx = runOps [Turn (Replied ''a'') ''g-key'' ''q'' [] ''model-a'' (Some ''sys'')] moduleLoaded"
    "''g-key'' \<noteq> []" "apiKeyNotValid ?msg"
    by (simp_all add: moduleEx_reached apiKeyNotValid_def)
  from auth_failure_invalidates_session [OF pre, of "[userContent ''q'', modelContent ''a'']"
        "''model-a''" "Some ''sys''" "''again''"]
  obtain failed held where body:
    "getOrCreateChat ''g-key'' [userContent ''q'', modelContent ''a''] ''model-a'' (Some ''sys'') moduleEx =
          Inr (failed, held) \<and>
     startOrContinueChatWithGemini (Failed ?msg) ''g-key'' ''again''
              [userContent ''q'', modelContent ''a''] ''model-a'' (Some ''sys'') moduleEx =
            (Inl (''Gemini Chat API error: '' @ orElse ?msg ''Unknown error''), invalidate held,
             [GeminiSendMessage (chatId failed) ''again'']) \<and>
     geminiChatInstance (invalidate held) = None \<and>
     chatApiKey (invalidate held) = None \<and> chatModelUsed (invalidate held) = None \<and>
     (\<forall>k h mo sy. getOrCreateChat k h mo sy (invalidate held) =
                  getOrCreateChat k h mo sy (resetGeminiChat held)) \<and>
     (\<forall>k h mo sy c' m'. getOrCreateChat k h mo sy (invalidate held) = Inr (c', m') \<longrightarrow>
        chatId c' \<noteq> chatId failed \<and> chatHistory c' = h \<and> chatModel c' = mo) \<and>
     (\<forall>k. k \<noteq> [] \<longrightarrow> (\<forall>h mo sy. \<exists>c' m'. getOrCreateChat k h mo sy (invalidate held) = Inr (c', m'))) \<and>
     (\<forall>later c'. geminiChatInstance (runOps later (invalidate held)) = Some c' \<longrightarrow>
        chatId c' \<noteq> chatId failed)"
    by - (erule exE, erule exE, rule that, assumption)
  note l = body [THEN conjunct1]
  note t = body [THEN conjunct2, THEN conjunct1]
  note g = body [THEN conjunct2, THEN conjunct2, THEN conjunct1]
  note e = body [THEN conjunct2, THEN conjunct2, THEN conjunct2, THEN conjunct2, THEN conjunct2,
      THEN conjunct1, THEN spec, THEN spec, THEN spec, THEN spec]
  from l have fh: "failed = chatEx" "held = moduleEx"
    by (simp_all add: moduleEx_lookup_same)
  have o: "orElse ?msg ''Unknown error'' = ''API key not valid. Please pass a valid API key.''"
    by (simp add: orElse_def)
  have i: "chatId chatEx = 0"
    by (simp add: chatEx_def)
  show ?thesis
    using t g e [of "''new-key''" "[]" "''model-a''" "Some ''sys''"]
    unfolding fh o i by simp
qed

end
